theory Spec2Isabelle
  imports Complex_Main "HOL-Library.Word"
begin

section \<open>JavaScript values as the handlers of server.js see them\<close>

text \<open>
  The three handlers of \<^verbatim>\<open>server.js\<close> work on untyped data: the parsed request body, the
  objects the provider SDKs resolve to and the values they reject with. Such a datum is a
  tree of plain JavaScript values.

  \<^item> A string is a \<^typ>\<open>string\<close>; each \<^typ>\<open>char\<close> stands for one UTF-16 code unit below
    \<open>0x100\<close>. Strings holding larger code units are outside the model.
  \<^item> A number is kept as the text \<^verbatim>\<open>Number::toString\<close> gives for it (\<open>''400''\<close>,
    \<open>''0.2''\<close>, \<open>''NaN''\<close>, \<open>''Infinity''\<close>): the handlers never calculate, they only test a
    number for truthiness and turn it into text.
  \<^item> An object is the list of its own properties in enumeration order; a lookup takes the
    first entry for a key.
  \<^item> No value is a function: parsed JSON and provider data hold none.
\<close>

datatype jsval =
    JUndefined
  | JNull
  | JBool bool
  | JNum string
  | JStr string
  | JArr "jsval list"
  | JObj "(string \<times> jsval) list"

text \<open>What a \<^verbatim>\<open>throw\<close> or a rejected promise carries: a \<^verbatim>\<open>TypeError\<close> of the runtime,
  the error \<^verbatim>\<open>res.setHeader\<close> raises on a value it refuses, or the value a provider call
  rejected with.\<close>

datatype thrown = TypeError | InvalidHeader | Rejected jsval

subsection \<open>Operators\<close>

text \<open>\<^verbatim>\<open>a ?? b\<close> takes \<open>b\<close> exactly when \<open>a\<close> is \<^verbatim>\<open>undefined\<close> or \<^verbatim>\<open>null\<close>.\<close>

fun nullish :: "jsval \<Rightarrow> bool" where
  "nullish JUndefined = True"
| "nullish JNull = True"
| "nullish _ = False"

definition coalesce :: "jsval \<Rightarrow> jsval \<Rightarrow> jsval" where
  "coalesce a b = (if nullish a then b else a)"

text \<open>\<^verbatim>\<open>a || b\<close> takes \<open>b\<close> exactly when \<open>a\<close> is falsy: \<^verbatim>\<open>undefined\<close>, \<^verbatim>\<open>null\<close>,
  \<^verbatim>\<open>false\<close>, the empty string, and the numbers \<open>0\<close>, \<open>-0\<close> (both print as \<open>0\<close>) and
  \<^verbatim>\<open>NaN\<close>.\<close>

fun truthy :: "jsval \<Rightarrow> bool" where
  "truthy JUndefined = False"
| "truthy JNull = False"
| "truthy (JBool b) = b"
| "truthy (JNum n) = (n \<noteq> ''0'' \<and> n \<noteq> ''NaN'')"
| "truthy (JStr s) = (s \<noteq> [])"
| "truthy (JArr _) = True"
| "truthy (JObj _) = True"

definition or_else :: "jsval \<Rightarrow> jsval \<Rightarrow> jsval" where
  "or_else a b = (if truthy a then a else b)"

text \<open>\<^verbatim>\<open>v.k\<close> on a value that is neither \<^verbatim>\<open>undefined\<close> nor \<^verbatim>\<open>null\<close>, for the property
  names the handlers read (\<^verbatim>\<open>prompt\<close>, \<^verbatim>\<open>task\<close>, \<^verbatim>\<open>tone\<close>, \<^verbatim>\<open>text\<close>, \<^verbatim>\<open>voice\<close>,
  \<^verbatim>\<open>format\<close>, \<^verbatim>\<open>result\<close>, \<^verbatim>\<open>generated_text\<close>, \<^verbatim>\<open>output_text\<close>, \<^verbatim>\<open>results\<close>,
  \<^verbatim>\<open>alternatives\<close>, \<^verbatim>\<open>transcript\<close>, \<^verbatim>\<open>response\<close>). None of them is inherited from a
  prototype, so an object answers with its own property and every other value with
  \<^verbatim>\<open>undefined\<close>.\<close>

fun get_prop :: "jsval \<Rightarrow> string \<Rightarrow> jsval" where
  "get_prop (JObj kvs) k = (case map_of kvs k of Some v \<Rightarrow> v | None \<Rightarrow> JUndefined)"
| "get_prop _ k = JUndefined"

text \<open>\<^verbatim>\<open>v?.k\<close>: \<^verbatim>\<open>undefined\<close> when \<open>v\<close> is nullish, the property otherwise.\<close>

definition opt_prop :: "jsval \<Rightarrow> string \<Rightarrow> jsval" where
  "opt_prop v k = (if nullish v then JUndefined else get_prop v k)"

text \<open>\<^verbatim>\<open>v.k\<close> without the question mark throws a \<^verbatim>\<open>TypeError\<close> on a nullish \<open>v\<close>.\<close>

definition strict_prop :: "jsval \<Rightarrow> string \<Rightarrow> thrown + jsval" where
  "strict_prop v k = (if nullish v then Inl TypeError else Inr (get_prop v k))"

text \<open>\<^verbatim>\<open>v?.[0]\<close>: the first element of an array, the first code unit of a string, the
  property \<^verbatim>\<open>"0"\<close> of an object; \<^verbatim>\<open>undefined\<close> when there is none or \<open>v\<close> is nullish.\<close>

fun opt_index0 :: "jsval \<Rightarrow> jsval" where
  "opt_index0 (JArr (x # _)) = x"
| "opt_index0 (JStr (c # _)) = JStr [c]"
| "opt_index0 (JObj kvs) = get_prop (JObj kvs) ''0''"
| "opt_index0 _ = JUndefined"

subsection \<open>Conversion to text\<close>

text \<open>\<^verbatim>\<open>Array.prototype.join\<close> puts the separator between the texts of the elements.\<close>

fun join_with :: "string \<Rightarrow> string list \<Rightarrow> string" where
  "join_with sep [] = []"
| "join_with sep [s] = s"
| "join_with sep (s # t # ss) = s @ sep @ join_with sep (t # ss)"

text \<open>Running a list of computations that may throw: the first throw wins.\<close>

fun sequence :: "(thrown + 'a) list \<Rightarrow> thrown + 'a list" where
  "sequence [] = Inr []"
| "sequence (Inl e # _) = Inl e"
| "sequence (Inr x # rest) = (case sequence rest of Inl e \<Rightarrow> Inl e | Inr xs \<Rightarrow> Inr (x # xs))"

text \<open>\<^verbatim>\<open>ToString\<close>, as a template literal and \<^verbatim>\<open>join\<close> apply it. An array prints as its
  elements joined by commas, a nullish element printing as nothing. A plain object prints
  as \<^verbatim>\<open>[object Object]\<close> through \<^verbatim>\<open>Object.prototype.toString\<close>; an own property named
  \<^verbatim>\<open>toString\<close> hides that method, and since no datum is callable the conversion then
  finds no primitive and throws a \<^verbatim>\<open>TypeError\<close>.\<close>

fun to_string :: "jsval \<Rightarrow> thrown + string" where
  "to_string JUndefined = Inr ''undefined''"
| "to_string JNull = Inr ''null''"
| "to_string (JBool b) = Inr (if b then ''true'' else ''false'')"
| "to_string (JNum n) = Inr n"
| "to_string (JStr s) = Inr s"
| "to_string (JArr xs) =
     (case sequence (map (\<lambda>x. if nullish x then Inr [] else to_string x) xs) of
        Inl e \<Rightarrow> Inl e
      | Inr ss \<Rightarrow> Inr (join_with '','' ss))"
| "to_string (JObj kvs) =
     (if map_of kvs ''toString'' = None then Inr ''[object Object]'' else Inl TypeError)"

text \<open>The text one element contributes to \<^verbatim>\<open>join\<close>.\<close>

definition element_text :: "jsval \<Rightarrow> thrown + string" where
  "element_text x = (if nullish x then Inr [] else to_string x)"

text \<open>\<^verbatim>\<open>String.prototype.trim\<close> removes white space and line terminators from both ends.
  Among the code units below \<open>0x100\<close> these are tab, line feed, vertical tab, form feed,
  carriage return, space and the no-break space.\<close>

definition is_space :: "char \<Rightarrow> bool" where
  "is_space c = (c \<in> {CHR 0x09, CHR 0x0A, CHR 0x0B, CHR 0x0C, CHR 0x0D, CHR 0x20, CHR 0xA0})"

definition trim :: "string \<Rightarrow> string" where
  "trim s = rev (dropWhile is_space (rev (dropWhile is_space s)))"

subsection \<open>JSON.stringify\<close>

definition hex_digit :: "nat \<Rightarrow> char" where
  "hex_digit n = ''0123456789abcdef'' ! (n mod 16)"

text \<open>One code unit inside a JSON string: the quotation mark and the backslash are
  escaped, the control characters have a short escape or \<^verbatim>\<open>\u00xx\<close>.\<close>

definition quote_char :: "char \<Rightarrow> string" where
  "quote_char c =
     (if c = CHR 0x22 then [CHR 0x5C, CHR 0x22]
      else if c = CHR 0x5C then [CHR 0x5C, CHR 0x5C]
      else if c = CHR 0x08 then [CHR 0x5C, CHR ''b'']
      else if c = CHR 0x0C then [CHR 0x5C, CHR ''f'']
      else if c = CHR 0x0A then [CHR 0x5C, CHR ''n'']
      else if c = CHR 0x0D then [CHR 0x5C, CHR ''r'']
      else if c = CHR 0x09 then [CHR 0x5C, CHR ''t'']
      else if (of_char c :: nat) < 0x20
        then [CHR 0x5C, CHR ''u'', CHR ''0'', CHR ''0'',
              hex_digit (of_char c div 16), hex_digit (of_char c)]
      else [c])"

definition quote :: "string \<Rightarrow> string" where
  "quote s = [CHR 0x22] @ concat (map quote_char s) @ [CHR 0x22]"

text \<open>\<^verbatim>\<open>JSON.stringify(v)\<close> with no replacer and no indentation. \<open>None\<close> is the result
  \<^verbatim>\<open>undefined\<close>, which only \<^verbatim>\<open>undefined\<close> itself gives. Inside an array \<^verbatim>\<open>undefined\<close>
  prints as \<^verbatim>\<open>null\<close>, inside an object the property is left out; a number that is not
  finite prints as \<^verbatim>\<open>null\<close>. A datum is a finite tree, so the circular-structure error
  cannot arise.\<close>

fun stringify :: "jsval \<Rightarrow> string option" where
  "stringify JUndefined = None"
| "stringify JNull = Some ''null''"
| "stringify (JBool b) = Some (if b then ''true'' else ''false'')"
| "stringify (JNum n) =
     Some (if n = ''NaN'' \<or> n = ''Infinity'' \<or> n = ''-Infinity'' then ''null'' else n)"
| "stringify (JStr s) = Some (quote s)"
| "stringify (JArr xs) =
     Some (''['' @ join_with '',''
             (map (\<lambda>x. case stringify x of None \<Rightarrow> ''null'' | Some s \<Rightarrow> s) xs) @ '']'')"
| "stringify (JObj kvs) =
     Some (''{'' @ join_with '',''
             (concat (map (\<lambda>(k, v). case stringify v of None \<Rightarrow> []
                                        | Some s \<Rightarrow> [quote k @ '':'' @ s]) kvs)) @ ''}'')"

definition JSON_stringify :: "jsval \<Rightarrow> jsval" where
  "JSON_stringify v = (case stringify v of None \<Rightarrow> JUndefined | Some s \<Rightarrow> JStr s)"

section \<open>The world around the handlers\<close>

text \<open>\<^verbatim>\<open>process.env\<close>: every variable that is set holds a string.\<close>

type_synonym env = "string \<rightharpoonup> string"

definition env_get :: "env \<Rightarrow> string \<Rightarrow> jsval" where
  "env_get env k = (case env k of None \<Rightarrow> JUndefined | Some v \<Rightarrow> JStr v)"

type_synonym bytes = "8 word list"

text \<open>The object literal \<^verbatim>\<open>generateParams\<close> of the generation handler; the field
  \<open>system_prompt\<close> is \<^verbatim>\<open>context.system_prompt\<close>.\<close>

record decoding =
  decoding_method :: string
  max_new_tokens :: nat
  stop_sequences :: "jsval list"
  temperature :: real

record gen_params =
  modelId :: string
  input :: jsval
  projectId :: jsval
  parameters :: decoding
  system_prompt :: string

text \<open>The argument of \<^verbatim>\<open>tts.synthesize\<close> and of \<^verbatim>\<open>stt.recognize\<close>. The audio stream of a
  recognition call is named by the path \<^verbatim>\<open>fs.createReadStream\<close> opened.\<close>

record tts_params =
  tts_text :: jsval
  tts_accept :: jsval
  tts_voice :: jsval

record stt_params =
  stt_audio :: string
  stt_contentType :: jsval
  stt_model :: string

text \<open>\<^verbatim>\<open>req.file\<close> as multer's \<^verbatim>\<open>upload.single("audio")\<close> leaves it: absent when the
  multipart body has no such file, otherwise the temporary file it wrote.\<close>

record upload =
  path :: string
  mimetype :: jsval

text \<open>What \<^verbatim>\<open>console.error\<close> receives as its second argument,
  \<^verbatim>\<open>err?.response?.result || err\<close>: the provider's payload when the error carries a truthy
  one, the error itself otherwise.\<close>

datatype logged = Payload jsval | Whole thrown

fun error_detail :: "thrown \<Rightarrow> logged" where
  "error_detail (Rejected v) =
     (let d = opt_prop (opt_prop v ''response'') ''result''
      in if truthy d then Payload d else Whole (Rejected v))"
| "error_detail err = Whole err"

text \<open>The effects a handler has, in the order it has them.\<close>

datatype event =
    GenerateText gen_params
  | Synthesize tts_params
  | RepairWavHeaderStream bytes
  | CreateReadStream string
  | Recognize stt_params
  | Unlink string
  | ConsoleError string logged

text \<open>The state a handler runs in: the files on disk and the effects so far.\<close>

record world =
  files :: "string set"
  events :: "event list"

definition emit :: "event \<Rightarrow> world \<Rightarrow> world" where
  "emit e w = w\<lparr>events := events w @ [e]\<rparr>"

text \<open>\<^verbatim>\<open>fs.unlink(p, () => {})\<close>: the file goes, and a failure is swallowed by the empty
  callback.\<close>

definition unlink :: "string \<Rightarrow> world \<Rightarrow> world" where
  "unlink p w = emit (Unlink p) (w\<lparr>files := files w - {p}\<rparr>)"

text \<open>A response: the status, the headers the handler set through \<^verbatim>\<open>res.setHeader\<close>
  as they stand when the response goes out (headers Express adds where the handler set
  none are left out) and the payload: the object handed to \<^verbatim>\<open>res.json\<close>, the buffer
  handed to \<^verbatim>\<open>res.send\<close>, or the page Express's default error handler writes when a
  middleware ends the request with an error.\<close>

datatype payload = Json jsval | Raw bytes | ErrorPage

record response =
  status :: nat
  headers :: "(string \<times> jsval) list"
  payload :: payload

definition res_json :: "jsval \<Rightarrow> response" where
  "res_json v = \<lparr>status = 200, headers = [], payload = Json v\<rparr>"

definition res_status_json :: "nat \<Rightarrow> jsval \<Rightarrow> response" where
  "res_status_json code v = \<lparr>status = code, headers = [], payload = Json v\<rparr>"

text \<open>\<^verbatim>\<open>res.send(buffer)\<close> after \<^verbatim>\<open>res.setHeader("Content-Type", v)\<close>. Express tests
  \<^verbatim>\<open>!this.get('Content-Type')\<close> and, when the value set is falsy, replaces it by
  \<^verbatim>\<open>application/octet-stream\<close>; a truthy value stays as it was set.\<close>

definition res_send :: "jsval \<Rightarrow> bytes \<Rightarrow> response" where
  "res_send content_type buffer =
     \<lparr>status = 200,
      headers = [(''Content-Type'',
                  if truthy content_type then content_type
                  else JStr ''application/octet-stream'')],
      payload = Raw buffer\<rparr>"

text \<open>What Express's default error handler answers when a middleware passes an error
  that carries no status of its own: status 500 and its error page.\<close>

definition default_error_response :: response where
  "default_error_response = \<lparr>status = 500, headers = [], payload = ErrorPage\<rparr>"

text \<open>A destructuring pattern \<^verbatim>\<open>{ k = d } = body\<close>: the default stands in exactly when the
  property is \<^verbatim>\<open>undefined\<close>.\<close>

definition with_default :: "jsval \<Rightarrow> jsval \<Rightarrow> jsval" where
  "with_default v d = (if v = JUndefined then d else v)"

text \<open>The \<^verbatim>\<open>catch\<close> block shared in shape by the three handlers: log the detail, answer
  500 with the handler's fixed message.\<close>

definition catch_all ::
  "string \<Rightarrow> string \<Rightarrow> (thrown + response) \<times> world \<Rightarrow> response \<times> world" where
  "catch_all label message r =
     (case r of
        (Inr res, w) \<Rightarrow> (res, w)
      | (Inl err, w) \<Rightarrow>
          (res_status_json 500 (JObj [(''error'', JStr message)]),
           emit (ConsoleError label (error_detail err)) w))"

section \<open>POST /api/generate\<close>

definition GRANITE_MODEL :: string where
  "GRANITE_MODEL = ''ibm/granite-13b-instruct-v2''"

text \<open>The template literal \<^verbatim>\<open>system\<close>, with the line break it holds between the task and
  the tone.\<close>

definition system_template :: "string \<Rightarrow> string \<Rightarrow> string" where
  "system_template task tone =
     ''You are EchoVerse'' @ [CHR 0x27] @ ''s writer. Task: '' @ task @ ''.'' @ [CHR 0x0A]
     @ ''Tone: '' @ tone @ ''. Keep meaning intact. Output only the transformed text.''"

text \<open>The object literal \<^verbatim>\<open>generateParams\<close>, as a function of what it mentions: the
  environment, the prompt and the system instruction.\<close>

definition generateParams :: "env \<Rightarrow> jsval \<Rightarrow> string \<Rightarrow> gen_params" where
  "generateParams env prompt system =
     \<lparr>modelId = GRANITE_MODEL,
      input = prompt,
      projectId = env_get env ''WATSONX_PROJECT_ID'',
      parameters =
        \<lparr>decoding_method = ''greedy'',
         max_new_tokens = 400,
         stop_sequences = [],
         temperature = 0.2\<rparr>,
      system_prompt = system\<rparr>"

text \<open>The normalisation of the provider's answer:
  \<^verbatim>\<open>result?.result?.generated_text ?? result?.generated_text ?? result?.result?.output_text ?? JSON.stringify(result)\<close>.\<close>

definition normalize_text :: "jsval \<Rightarrow> jsval" where
  "normalize_text result =
     coalesce (opt_prop (opt_prop result ''result'') ''generated_text'')
       (coalesce (opt_prop result ''generated_text'')
          (coalesce (opt_prop (opt_prop result ''result'') ''output_text'')
             (JSON_stringify result)))"

text \<open>The \<^verbatim>\<open>try\<close> block. \<open>wx\<close> is \<^verbatim>\<open>wx.generateText\<close>: what the provider call resolves to
  or rejects with.\<close>

definition generate_try ::
  "env \<Rightarrow> (gen_params \<Rightarrow> thrown + jsval) \<Rightarrow> jsval \<Rightarrow> world \<Rightarrow> (thrown + response) \<times> world" where
  "generate_try env wx body w =
     (if nullish body then (Inl TypeError, w)
      else
        let prompt = get_prop body ''prompt'';
            task = with_default (get_prop body ''task'') (JStr ''rewrite'');
            tone = with_default (get_prop body ''tone'') (JStr ''Neutral'')
        in case to_string task of
             Inl e \<Rightarrow> (Inl e, w)
           | Inr t \<Rightarrow>
               (case to_string tone of
                  Inl e \<Rightarrow> (Inl e, w)
                | Inr v \<Rightarrow>
                    (let system = system_template t v;
                         params = generateParams env prompt system;
                         w1 = emit (GenerateText params) w
                     in case wx params of
                          Inl e \<Rightarrow> (Inl e, w1)
                        | Inr result \<Rightarrow>
                            (Inr (res_json (JObj [(''text'', normalize_text result)])), w1))))"

definition generate_handler ::
  "env \<Rightarrow> (gen_params \<Rightarrow> thrown + jsval) \<Rightarrow> jsval \<Rightarrow> world \<Rightarrow> response \<times> world" where
  "generate_handler env wx body w =
     catch_all ''watsonx error:'' ''Granite generation failed'' (generate_try env wx body w)"

section \<open>POST /api/tts\<close>

text \<open>The \<^verbatim>\<open>try\<close> block. \<open>synthesize\<close> gives the \<^verbatim>\<open>result\<close> stream of the response
  \<^verbatim>\<open>tts.synthesize\<close> resolves to, as the bytes it delivers; \<open>repair\<close> is the SDK's
  \<^verbatim>\<open>repairWavHeaderStream\<close>; \<open>header_ok\<close> says which values \<^verbatim>\<open>res.setHeader\<close> accepts.
  The answer goes out through \<^verbatim>\<open>res.send\<close>, which has the last word on the content
  type.\<close>

definition tts_try ::
  "env \<Rightarrow> (tts_params \<Rightarrow> thrown + bytes) \<Rightarrow> (bytes \<Rightarrow> thrown + bytes) \<Rightarrow> (jsval \<Rightarrow> bool)
     \<Rightarrow> jsval \<Rightarrow> world \<Rightarrow> (thrown + response) \<times> world" where
  "tts_try env synthesize repair header_ok body w =
     (if nullish body then (Inl TypeError, w)
      else
        let text = get_prop body ''text'';
            voice = with_default (get_prop body ''voice'')
                      (or_else (env_get env ''TTS_VOICE'') (JStr ''en-US_AllisonV3Voice''));
            format = with_default (get_prop body ''format'') (JStr ''audio/mp3'');
            params = \<lparr>tts_text = text, tts_accept = format, tts_voice = voice\<rparr>;
            w1 = emit (Synthesize params) w
        in case synthesize params of
             Inl e \<Rightarrow> (Inl e, w1)
           | Inr stream \<Rightarrow>
               (let w2 = emit (RepairWavHeaderStream stream) w1
                in case repair stream of
                     Inl e \<Rightarrow> (Inl e, w2)
                   | Inr audio \<Rightarrow>
                       (if header_ok format
                        then (Inr (res_send format audio), w2)
                        else (Inl InvalidHeader, w2))))"

definition tts_handler ::
  "env \<Rightarrow> (tts_params \<Rightarrow> thrown + bytes) \<Rightarrow> (bytes \<Rightarrow> thrown + bytes) \<Rightarrow> (jsval \<Rightarrow> bool)
     \<Rightarrow> jsval \<Rightarrow> world \<Rightarrow> response \<times> world" where
  "tts_handler env synthesize repair header_ok body w =
     catch_all ''TTS error:'' ''TTS failed'' (tts_try env synthesize repair header_ok body w)"

section \<open>POST /api/stt\<close>

text \<open>The callback of \<^verbatim>\<open>map\<close>: \<^verbatim>\<open>r => r.alternatives?.[0]?.transcript || ""\<close>.\<close>

definition segment_text :: "jsval \<Rightarrow> thrown + jsval" where
  "segment_text r =
     (case strict_prop r ''alternatives'' of
        Inl e \<Rightarrow> Inl e
      | Inr alts \<Rightarrow> Inr (or_else (opt_prop (opt_index0 alts) ''transcript'') (JStr [])))"

text \<open>\<^verbatim>\<open>sttResp?.result?.results?.map(...).join(" ").trim() || ""\<close>. A nullish link ends the
  whole chain with \<^verbatim>\<open>undefined\<close>; only an array has a method \<^verbatim>\<open>map\<close>, so any other
  value of \<^verbatim>\<open>results\<close> is a \<^verbatim>\<open>TypeError\<close>.\<close>

definition transcript_of :: "jsval \<Rightarrow> thrown + jsval" where
  "transcript_of sttResp =
     (let results = opt_prop (opt_prop sttResp ''result'') ''results''
      in if nullish results then Inr (or_else JUndefined (JStr []))
         else case results of
                JArr rs \<Rightarrow>
                  (case sequence (map segment_text rs) of
                     Inl e \<Rightarrow> Inl e
                   | Inr ts \<Rightarrow>
                       (case sequence (map element_text ts) of
                          Inl e \<Rightarrow> Inl e
                        | Inr ss \<Rightarrow> Inr (or_else (JStr (trim (join_with '' '' ss))) (JStr []))))
              | _ \<Rightarrow> Inl TypeError)"

text \<open>The \<^verbatim>\<open>try\<close> block. \<open>recognize\<close> is \<^verbatim>\<open>stt.recognize\<close>.\<close>

definition stt_try ::
  "(stt_params \<Rightarrow> thrown + jsval) \<Rightarrow> upload option \<Rightarrow> world \<Rightarrow> (thrown + response) \<times> world" where
  "stt_try recognize file w =
     (case file of
        None \<Rightarrow> (Inl TypeError, w)
      | Some f \<Rightarrow>
          (let audioPath = path f;
              contentType = or_else (mimetype f) (JStr ''audio/webm'');
              w1 = emit (CreateReadStream audioPath) w;
              params = \<lparr>stt_audio = audioPath, stt_contentType = contentType,
                        stt_model = ''en-US_BroadbandModel''\<rparr>;
              w2 = emit (Recognize params) w1
          in case recognize params of
               Inl e \<Rightarrow> (Inl e, w2)
             | Inr sttResp \<Rightarrow>
                 (let w3 = unlink audioPath w2
                  in case transcript_of sttResp of
                       Inl e \<Rightarrow> (Inl e, w3)
                     | Inr transcript \<Rightarrow>
                         (Inr (res_json (JObj [(''transcript'', transcript)])), w3))))"

definition stt_handler ::
  "(stt_params \<Rightarrow> thrown + jsval) \<Rightarrow> upload option \<Rightarrow> world \<Rightarrow> response \<times> world" where
  "stt_handler recognize file w =
     catch_all ''STT error:'' ''STT failed'' (stt_try recognize file w)"

subsection \<open>The route: multer's upload.single("audio"), then the handler\<close>

text \<open>The body of a transcription request as multer reads it: the parts of the multipart
  body in order, a text field with its name and value or a file (a part that carries a
  file name) with its field name and the content type the part declares. A request that
  is not multipart has no parts.\<close>

datatype part = TextField string string | FileField string string

datatype multer_error = LIMIT_UNEXPECTED_FILE string


text \<open>multer's file filter for \<^verbatim>\<open>single(field)\<close>: one file under the field is let
  through and becomes \<^verbatim>\<open>req.file\<close>; a file under any other field, or a second file
  under the field, is an unexpected file and ends the upload with an error. \<open>dest\<close> is the
  path the disk storage picks for the file under \<^verbatim>\<open>uploads/\<close>.\<close>

fun accept_files ::
  "string \<Rightarrow> string \<Rightarrow> part list \<Rightarrow> upload option \<Rightarrow> multer_error + upload option" where
  "accept_files field dest [] got = Inr got"
| "accept_files field dest (TextField _ _ # ps) got = accept_files field dest ps got"
| "accept_files field dest (FileField name mt # ps) got =
     (if name = field \<and> got = None
      then accept_files field dest ps (Some \<lparr>path = dest, mimetype = JStr mt\<rparr>)
      else Inl (LIMIT_UNEXPECTED_FILE name))"

text \<open>The middleware: on an error multer removes what it stored and hands the error to
  Express; otherwise the accepted file is on disk when the handler starts.\<close>

definition upload_single ::
  "string \<Rightarrow> string \<Rightarrow> part list \<Rightarrow> world \<Rightarrow> (multer_error + upload option) \<times> world" where
  "upload_single field dest parts w =
     (case accept_files field dest parts None of
        Inl err \<Rightarrow> (Inl err, w)
      | Inr None \<Rightarrow> (Inr None, w)
      | Inr (Some f) \<Rightarrow> (Inr (Some f), w\<lparr>files := insert (path f) (files w)\<rparr>))"

text \<open>\<^verbatim>\<open>app.post("/api/stt", upload.single("audio"), handler)\<close>: the handler runs only
  when the middleware passes the request on.\<close>

definition stt_route ::
  "(stt_params \<Rightarrow> thrown + jsval) \<Rightarrow> string \<Rightarrow> part list \<Rightarrow> world \<Rightarrow> response \<times> world" where
  "stt_route recognize dest parts w =
     (case upload_single ''audio'' dest parts w of
        (Inl err, w') \<Rightarrow> (default_error_response, w')
      | (Inr file, w') \<Rightarrow> stt_handler recognize file w')"

section \<open>Observations on a run\<close>

text \<open>The provider calls and the logged errors recorded in a list of effects.\<close>

fun gen_calls :: "event list \<Rightarrow> gen_params list" where
  "gen_calls [] = []"
| "gen_calls (GenerateText p # es) = p # gen_calls es"
| "gen_calls (_ # es) = gen_calls es"

fun synth_calls :: "event list \<Rightarrow> tts_params list" where
  "synth_calls [] = []"
| "synth_calls (Synthesize p # es) = p # synth_calls es"
| "synth_calls (_ # es) = synth_calls es"


fun logged_errors :: "event list \<Rightarrow> (string \<times> logged) list" where
  "logged_errors [] = []"
| "logged_errors (ConsoleError l d # es) = (l, d) # logged_errors es"
| "logged_errors (_ # es) = logged_errors es"

text \<open>The answer every \<^verbatim>\<open>catch\<close> block gives, up to its message.\<close>

definition failure :: "string \<Rightarrow> response" where
  "failure message =
     \<lparr>status = 500, headers = [], payload = Json (JObj [(''error'', JStr message)])\<rparr>"

section \<open>The specification's reading of the two normalisers\<close>

text \<open>Response extraction for generation, as the specification words it: an ordered list
  of candidate field paths, tried in priority order, with the serialised response as the
  fallback. A field is present when the path leads through objects to a value that is
  neither \<^verbatim>\<open>undefined\<close> nor \<^verbatim>\<open>null\<close>.\<close>

fun field_at :: "jsval \<Rightarrow> string list \<Rightarrow> jsval option" where
  "field_at v [] = (if nullish v then None else Some v)"
| "field_at (JObj kvs) (k # ks) =
     (case map_of kvs k of None \<Rightarrow> None | Some u \<Rightarrow> field_at u ks)"
| "field_at _ (k # ks) = None"

fun first_present :: "jsval \<Rightarrow> string list list \<Rightarrow> jsval option" where
  "first_present r [] = None"
| "first_present r (p # ps) =
     (case field_at r p of Some v \<Rightarrow> Some v | None \<Rightarrow> first_present r ps)"

definition candidate_paths :: "string list list" where
  "candidate_paths =
     [[''result'', ''generated_text''], [''generated_text''], [''result'', ''output_text'']]"

text \<open>The instruction preamble in the specification's wording.\<close>

definition spec_preamble :: "string \<Rightarrow> string \<Rightarrow> string" where
  "spec_preamble task tone =
     ''You are a writer. Task: '' @ task @ ''. Tone: '' @ tone
     @ ''. Keep meaning intact. Output only the transformed text.''"

text \<open>The recognition provider's answer read as typed data: the segments in order, each
  with the transcripts of its alternatives in rank order. Other fields of a segment or of
  an alternative are ignored; a segment may leave \<^verbatim>\<open>alternatives\<close> out.\<close>

fun alternative_of :: "jsval \<Rightarrow> string option" where
  "alternative_of (JObj kvs) =
     (case map_of kvs ''transcript'' of Some (JStr t) \<Rightarrow> Some t | _ \<Rightarrow> None)"
| "alternative_of _ = None"

fun all_some :: "'a option list \<Rightarrow> 'a list option" where
  "all_some [] = Some []"
| "all_some (None # _) = None"
| "all_some (Some x # rest) = (case all_some rest of None \<Rightarrow> None | Some xs \<Rightarrow> Some (x # xs))"

fun segment_of :: "jsval \<Rightarrow> string list option" where
  "segment_of (JObj kvs) =
     (case map_of kvs ''alternatives'' of
        None \<Rightarrow> Some []
      | Some (JArr alts) \<Rightarrow> all_some (map alternative_of alts)
      | _ \<Rightarrow> None)"
| "segment_of _ = None"

definition segments_of :: "jsval \<Rightarrow> string list list option" where
  "segments_of sttResp =
     (case get_prop (get_prop sttResp ''result'') ''results'' of
        JArr rs \<Rightarrow> all_some (map segment_of rs)
      | _ \<Rightarrow> None)"

text \<open>The transcript as the specification words it: the top-ranked alternative of each
  segment, the empty string for a segment without alternatives, joined by single spaces
  and trimmed.\<close>

fun top_alternative :: "string list \<Rightarrow> string" where
  "top_alternative [] = []"
| "top_alternative (t # _) = t"

definition spec_transcript :: "string list list \<Rightarrow> string" where
  "spec_transcript segs = trim (join_with '' '' (map top_alternative segs))"

section \<open>Facts about the model\<close>

subsection \<open>Observations distribute over an extended run\<close>

lemma gen_calls_append: "gen_calls (xs @ ys) = gen_calls xs @ gen_calls ys"
  by (induction xs rule: gen_calls.induct) simp_all

lemma synth_calls_append: "synth_calls (xs @ ys) = synth_calls xs @ synth_calls ys"
  by (induction xs rule: synth_calls.induct) simp_all


lemma logged_errors_append:
  "logged_errors (xs @ ys) = logged_errors xs @ logged_errors ys"
  by (induction xs rule: logged_errors.induct) simp_all

lemmas handler_defs =
  catch_all_def failure_def res_status_json_def res_json_def emit_def Let_def

subsection \<open>Throwing\<close>

lemma sequence_Inl: "sequence rs = Inl e \<Longrightarrow> Inl e \<in> set rs"
  by (induction rs rule: sequence.induct) (auto split: sum.splits)

text \<open>A conversion to text can only fail with a \<^verbatim>\<open>TypeError\<close>.\<close>

lemma to_string_error: "to_string v = Inl e \<Longrightarrow> e = TypeError"
proof (induction v arbitrary: e rule: to_string.induct)
  case (6 xs)
  from "6.prems"
  have "sequence (map (\<lambda>x. if nullish x then Inr [] else to_string x) xs) = Inl e"
    by (simp split: sum.splits)
  then have "Inl e \<in> set (map (\<lambda>x. if nullish x then Inr [] else to_string x) xs)"
    by (rule sequence_Inl)
  then obtain x where "x \<in> set xs" "\<not> nullish x" "to_string x = Inl e"
    by (auto split: if_splits)
  then show ?case using "6.IH" by blast
qed (auto split: if_splits)

subsection \<open>The ways the generation handler can go\<close>

text \<open>Once the body destructures and both labels convert to text, the provider is called
  exactly once and its outcome decides the answer.\<close>

lemma generate_handler_call:
  assumes "\<not> nullish body"
    and "to_string (with_default (get_prop body ''task'') (JStr ''rewrite'')) = Inr t"
    and "to_string (with_default (get_prop body ''tone'') (JStr ''Neutral'')) = Inr v"
    and "P = generateParams env (get_prop body ''prompt'') (system_template t v)"
  shows "generate_handler env wx body w =
           (case wx P of
              Inl e \<Rightarrow> (failure ''Granite generation failed'',
                        w\<lparr>events := events w @ [GenerateText P,
                                      ConsoleError ''watsonx error:'' (error_detail e)]\<rparr>)
            | Inr result \<Rightarrow> (res_json (JObj [(''text'', normalize_text result)]),
                             w\<lparr>events := events w @ [GenerateText P]\<rparr>))"
  using assms
  by (simp add: generate_handler_def generate_try_def handler_defs split: sum.splits)

text \<open>Otherwise the handler throws before it reaches the provider.\<close>

lemma generate_handler_no_call:
  assumes "nullish body
           \<or> to_string (with_default (get_prop body ''task'') (JStr ''rewrite'')) = Inl e1
           \<or> to_string (with_default (get_prop body ''tone'') (JStr ''Neutral'')) = Inl e2"
  shows "generate_handler env wx body w =
           (failure ''Granite generation failed'',
            w\<lparr>events := events w @ [ConsoleError ''watsonx error:'' (Whole TypeError)]\<rparr>)"
proof -
  have err: "a = TypeError" if "to_string x = Inl a" for x a
    using that by (rule to_string_error)
  from assms show ?thesis
    by (auto simp add: generate_handler_def generate_try_def handler_defs
        split: sum.splits dest: err)
qed

lemma generate_handler_cases:
  obtains (no_call)
      "generate_handler env wx body w =
         (failure ''Granite generation failed'',
          w\<lparr>events := events w @ [ConsoleError ''watsonx error:'' (Whole TypeError)]\<rparr>)"
  | (rejected) t v e where
      "wx (generateParams env (get_prop body ''prompt'') (system_template t v)) = Inl e"
      "generate_handler env wx body w =
         (failure ''Granite generation failed'',
          w\<lparr>events := events w @
             [GenerateText (generateParams env (get_prop body ''prompt'') (system_template t v)),
              ConsoleError ''watsonx error:'' (error_detail e)]\<rparr>)"
  | (resolved) t v result where
      "wx (generateParams env (get_prop body ''prompt'') (system_template t v)) = Inr result"
      "generate_handler env wx body w =
         (res_json (JObj [(''text'', normalize_text result)]),
          w\<lparr>events := events w @
             [GenerateText
                (generateParams env (get_prop body ''prompt'') (system_template t v))]\<rparr>)"
proof (cases "nullish body")
  case True
  then show ?thesis using no_call generate_handler_no_call by blast
next
  case nb: False
  show ?thesis
  proof (cases "to_string (with_default (get_prop body ''task'') (JStr ''rewrite''))")
    case (Inl a)
    then show ?thesis using no_call generate_handler_no_call by blast
  next
    case t: (Inr t)
    show ?thesis
    proof (cases "to_string (with_default (get_prop body ''tone'') (JStr ''Neutral''))")
      case (Inl a)
      then show ?thesis using no_call generate_handler_no_call by blast
    next
      case v: (Inr v)
      show ?thesis
      proof (cases "wx (generateParams env (get_prop body ''prompt'') (system_template t v))")
        case (Inl e)
        then show ?thesis
          using rejected [of t v e] generate_handler_call [OF nb t v refl, of env wx w]
          by simp
      next
        case (Inr r)
        then show ?thesis
          using resolved [of t v r] generate_handler_call [OF nb t v refl, of env wx w]
          by simp
      qed
    qed
  qed
qed

lemma generate_handler_gen_calls:
  assumes "\<not> nullish body"
    and "to_string (with_default (get_prop body ''task'') (JStr ''rewrite'')) = Inr t"
    and "to_string (with_default (get_prop body ''tone'') (JStr ''Neutral'')) = Inr v"
  shows "gen_calls (events (snd (generate_handler env wx body w)))
           = gen_calls (events w)
             @ [generateParams env (get_prop body ''prompt'') (system_template t v)]"
  unfolding generate_handler_call [OF assms refl]
  by (cases "wx (generateParams env (get_prop body ''prompt'') (system_template t v))")
     (simp_all add: gen_calls_append)

subsection \<open>Optional chaining on data\<close>

text \<open>On data a property read of a nullish value, when guarded, gives what the unguarded
  read of the model gives: \<^verbatim>\<open>undefined\<close>.\<close>

lemma opt_prop_get: "opt_prop v k = get_prop v k"
  by (cases v) (simp_all add: opt_prop_def)

subsection \<open>The ways the synthesis handler can go\<close>

lemma tts_handler_no_call:
  "nullish body \<Longrightarrow>
   tts_handler env synthesize repair header_ok body w =
     (failure ''TTS failed'',
      w\<lparr>events := events w @ [ConsoleError ''TTS error:'' (Whole TypeError)]\<rparr>)"
  by (simp add: tts_handler_def tts_try_def handler_defs)

lemma tts_handler_call:
  assumes "\<not> nullish body"
    and "P = \<lparr>tts_text = get_prop body ''text'',
              tts_accept = with_default (get_prop body ''format'') (JStr ''audio/mp3''),
              tts_voice = with_default (get_prop body ''voice'')
                (or_else (env_get env ''TTS_VOICE'') (JStr ''en-US_AllisonV3Voice''))\<rparr>"
  shows "tts_handler env synthesize repair header_ok body w =
     (case synthesize P of
        Inl e \<Rightarrow> (failure ''TTS failed'',
                   w\<lparr>events := events w @ [Synthesize P,
                         ConsoleError ''TTS error:'' (error_detail e)]\<rparr>)
      | Inr stream \<Rightarrow>
          (case repair stream of
             Inl e \<Rightarrow> (failure ''TTS failed'',
                        w\<lparr>events := events w @ [Synthesize P, RepairWavHeaderStream stream,
                              ConsoleError ''TTS error:'' (error_detail e)]\<rparr>)
           | Inr audio \<Rightarrow>
               (if header_ok (tts_accept P)
                then (res_send (tts_accept P) audio,
                      w\<lparr>events := events w @ [Synthesize P, RepairWavHeaderStream stream]\<rparr>)
                else (failure ''TTS failed'',
                      w\<lparr>events := events w @ [Synthesize P, RepairWavHeaderStream stream,
                            ConsoleError ''TTS error:'' (Whole InvalidHeader)]\<rparr>))))"
  using assms
  by (simp add: tts_handler_def tts_try_def handler_defs split: sum.splits)

lemma tts_handler_synth_calls:
  assumes "\<not> nullish body"
    and "P = \<lparr>tts_text = get_prop body ''text'',
              tts_accept = with_default (get_prop body ''format'') (JStr ''audio/mp3''),
              tts_voice = with_default (get_prop body ''voice'')
                (or_else (env_get env ''TTS_VOICE'') (JStr ''en-US_AllisonV3Voice''))\<rparr>"
  shows "synth_calls (events (snd (tts_handler env synthesize repair header_ok body w)))
           = synth_calls (events w) @ [P]"
  unfolding tts_handler_call [OF assms]
  by (cases "synthesize P"; cases "repair (projr (synthesize P))"; cases "header_ok (tts_accept P)")
     (simp_all add: synth_calls_append)

lemma tts_handler_headers:
  assumes "\<not> nullish body"
    and "status (fst (tts_handler env synthesize repair header_ok body w)) = 200"
  shows "headers (fst (tts_handler env synthesize repair header_ok body w))
           = [(''Content-Type'',
               if truthy (with_default (get_prop body ''format'') (JStr ''audio/mp3''))
               then with_default (get_prop body ''format'') (JStr ''audio/mp3'')
               else JStr ''application/octet-stream'')]"
  using assms(2) unfolding tts_handler_call [OF assms(1) refl]
  by (cases "synthesize \<lparr>tts_text = get_prop body ''text'',
              tts_accept = with_default (get_prop body ''format'') (JStr ''audio/mp3''),
              tts_voice = with_default (get_prop body ''voice'')
                (or_else (env_get env ''TTS_VOICE'') (JStr ''en-US_AllisonV3Voice''))\<rparr>";
      cases "repair (projr (synthesize \<lparr>tts_text = get_prop body ''text'',
              tts_accept = with_default (get_prop body ''format'') (JStr ''audio/mp3''),
              tts_voice = with_default (get_prop body ''voice'')
                (or_else (env_get env ''TTS_VOICE'') (JStr ''en-US_AllisonV3Voice''))\<rparr>))";
      cases "header_ok (with_default (get_prop body ''format'') (JStr ''audio/mp3''))")
     (simp_all add: failure_def res_send_def)

lemma default_voice:
  "or_else (env_get env ''TTS_VOICE'') (JStr ''en-US_AllisonV3Voice'')
     = (case env ''TTS_VOICE'' of
          None \<Rightarrow> JStr ''en-US_AllisonV3Voice''
        | Some v \<Rightarrow> if v = [] then JStr ''en-US_AllisonV3Voice'' else JStr v)"
  by (simp add: or_else_def env_get_def split: option.splits)

subsection \<open>The transcript of a typed answer\<close>

text \<open>On an answer that reads as typed segments, the \<^verbatim>\<open>map\<close> callback yields the
  top-ranked transcript of each segment and nothing throws.\<close>

lemma or_else_JStr: "or_else (JStr s) (JStr []) = JStr s"
  by (simp add: or_else_def)

lemma alternative_transcript:
  "alternative_of a = Some t \<Longrightarrow> get_prop a ''transcript'' = JStr t"
  by (cases a) (auto split: option.splits jsval.splits)

lemma all_some_Cons:
  "all_some (x # xs) = Some ys \<Longrightarrow> \<exists>y ys'. x = Some y \<and> all_some xs = Some ys' \<and> ys = y # ys'"
  by (cases x) (auto split: option.splits)

lemma segment_text_typed:
  assumes "segment_of r = Some alts"
  shows "segment_text r = Inr (JStr (top_alternative alts))"
proof (cases r)
  case (JObj kvs)
  show ?thesis
  proof (cases "map_of kvs ''alternatives''")
    case None
    with JObj assms show ?thesis
      by (simp add: segment_text_def strict_prop_def opt_prop_get or_else_def)
  next
    case (Some a)
    with JObj assms obtain as where a: "a = JArr as"
      and alts: "all_some (map alternative_of as) = Some alts"
      by (cases a) auto
    show ?thesis
    proof (cases as)
      case Nil
      with alts have "alts = []" by simp
      with JObj Some a Nil show ?thesis
        by (simp add: segment_text_def strict_prop_def opt_prop_get or_else_def)
    next
      case (Cons x xs)
      with alts obtain t ts where "alternative_of x = Some t" "alts = t # ts"
        by (auto dest: all_some_Cons)
      with JObj Some a Cons show ?thesis
        by (simp add: segment_text_def strict_prop_def opt_prop_get alternative_transcript
            or_else_JStr)
    qed
  qed
qed (use assms in simp_all)

lemma segments_text_typed:
  "all_some (map segment_of rs) = Some segs \<Longrightarrow>
   sequence (map segment_text rs) = Inr (map (\<lambda>alts. JStr (top_alternative alts)) segs)"
proof (induction rs arbitrary: segs)
  case Nil
  then show ?case by simp
next
  case (Cons r rs)
  from Cons.prems obtain alts segs' where "segment_of r = Some alts"
    "all_some (map segment_of rs) = Some segs'" "segs = alts # segs'"
    by (auto dest: all_some_Cons)
  with Cons.IH show ?case
    by (simp add: segment_text_typed)
qed

lemma element_text_strings:
  "sequence (map (element_text \<circ> (\<lambda>alts. JStr (f alts))) segs) = Inr (map f segs)"
  by (induction segs) (simp_all add: element_text_def)

lemma transcript_of_typed:
  assumes "segments_of sttResp = Some segs"
  shows "transcript_of sttResp = Inr (JStr (spec_transcript segs))"
proof -
  from assms obtain rs where
    rs: "get_prop (get_prop sttResp ''result'') ''results'' = JArr rs"
    and segs: "all_some (map segment_of rs) = Some segs"
    by (auto simp: segments_of_def split: jsval.splits)
  show ?thesis
    by (simp add: transcript_of_def opt_prop_get rs segments_text_typed [OF segs]
        element_text_strings or_else_JStr spec_transcript_def)
qed

subsection \<open>The ways the transcription handler can go\<close>

lemma stt_handler_no_file:
  "stt_handler recognize None w =
     (failure ''STT failed'',
      w\<lparr>events := events w @ [ConsoleError ''STT error:'' (Whole TypeError)]\<rparr>)"
  by (simp add: stt_handler_def stt_try_def handler_defs)

lemma stt_handler_call:
  assumes "P = \<lparr>stt_audio = path f,
                 stt_contentType = or_else (mimetype f) (JStr ''audio/webm''),
                 stt_model = ''en-US_BroadbandModel''\<rparr>"
  shows "stt_handler recognize (Some f) w =
     (case recognize P of
        Inl e \<Rightarrow>
          (failure ''STT failed'',
           w\<lparr>events := events w @ [CreateReadStream (path f), Recognize P,
                 ConsoleError ''STT error:'' (error_detail e)]\<rparr>)
      | Inr sttResp \<Rightarrow>
          (case transcript_of sttResp of
             Inl e \<Rightarrow>
               (failure ''STT failed'',
                w\<lparr>files := files w - {path f},
                  events := events w @ [CreateReadStream (path f), Recognize P,
                    Unlink (path f), ConsoleError ''STT error:'' (error_detail e)]\<rparr>)
           | Inr transcript \<Rightarrow>
               (res_json (JObj [(''transcript'', transcript)]),
                w\<lparr>files := files w - {path f},
                  events := events w @ [CreateReadStream (path f), Recognize P,
                    Unlink (path f)]\<rparr>)))"
  using assms
  by (simp add: stt_handler_def stt_try_def handler_defs unlink_def split: sum.splits)

subsection \<open>The transcription route\<close>




lemma stt_route_audio_file:
  "stt_route recognize dest [FileField ''audio'' mt] w
     = stt_handler recognize (Some \<lparr>path = dest, mimetype = JStr mt\<rparr>)
         (w\<lparr>files := insert dest (files w)\<rparr>)"
  by (simp add: stt_route_def upload_single_def)


subsection \<open>Every answer is a success or the handler's one failure\<close>

lemma generate_outcome:
  "status (fst (generate_handler env wx body w)) = 200
   \<or> fst (generate_handler env wx body w) = failure ''Granite generation failed''"
  by (cases rule: generate_handler_cases [of env wx body w]) (simp_all add: res_json_def)

lemma tts_outcome:
  "status (fst (tts_handler env synthesize repair header_ok body w)) = 200
   \<or> fst (tts_handler env synthesize repair header_ok body w) = failure ''TTS failed''"
proof (cases "nullish body")
  case True
  then show ?thesis by (simp add: tts_handler_no_call)
next
  case False
  show ?thesis
    unfolding tts_handler_call [OF False refl]
    by (simp add: res_send_def split: sum.split)
qed

lemma stt_outcome:
  "status (fst (stt_handler recognize file w)) = 200
   \<or> fst (stt_handler recognize file w) = failure ''STT failed''"
proof (cases "file")
  case None
  then show ?thesis by (simp add: stt_handler_no_file)
next
  case (Some f)
  show ?thesis
    unfolding Some stt_handler_call [OF refl]
    by (simp add: res_json_def split: sum.split)
qed

subsection \<open>Every throw ends in the handler's one failure\<close>

lemma tts_handler_sent:
  assumes "\<not> nullish body"
    and "P = \<lparr>tts_text = get_prop body ''text'',
              tts_accept = with_default (get_prop body ''format'') (JStr ''audio/mp3''),
              tts_voice = with_default (get_prop body ''voice'')
                (or_else (env_get env ''TTS_VOICE'') (JStr ''en-US_AllisonV3Voice''))\<rparr>"
    and "synthesize P = Inr stream"
    and "repair stream = Inr audio"
    and "header_ok (tts_accept P)"
  shows "tts_handler env synthesize repair header_ok body w =
           (res_send (tts_accept P) audio,
            w\<lparr>events := events w @ [Synthesize P, RepairWavHeaderStream stream]\<rparr>)"
  using assms(3-5) by (simp add: tts_handler_call [OF assms(1,2)])

lemma generate_throws:
  "(nullish body
      \<or> to_string (with_default (get_prop body ''task'') (JStr ''rewrite'')) = Inl e
      \<or> to_string (with_default (get_prop body ''tone'') (JStr ''Neutral'')) = Inl e
    \<longrightarrow> generate_handler env wx body w
          = (failure ''Granite generation failed'',
             w\<lparr>events := events w @ [ConsoleError ''watsonx error:'' (Whole TypeError)]\<rparr>))
   \<and> (\<not> nullish body
      \<and> to_string (with_default (get_prop body ''task'') (JStr ''rewrite'')) = Inr t
      \<and> to_string (with_default (get_prop body ''tone'') (JStr ''Neutral'')) = Inr v
      \<and> wx (generateParams env (get_prop body ''prompt'') (system_template t v)) = Inl e
    \<longrightarrow> generate_handler env wx body w
          = (failure ''Granite generation failed'',
             w\<lparr>events := events w @
                [GenerateText (generateParams env (get_prop body ''prompt'')
                                 (system_template t v)),
                 ConsoleError ''watsonx error:'' (error_detail e)]\<rparr>))"
proof -
  have a: "generate_handler env wx body w
          = (failure ''Granite generation failed'',
             w\<lparr>events := events w @ [ConsoleError ''watsonx error:'' (Whole TypeError)]\<rparr>)"
    if "nullish body
      \<or> to_string (with_default (get_prop body ''task'') (JStr ''rewrite'')) = Inl e
      \<or> to_string (with_default (get_prop body ''tone'') (JStr ''Neutral'')) = Inl e"
    using that by (rule generate_handler_no_call)
  have b: "generate_handler env wx body w
          = (failure ''Granite generation failed'',
             w\<lparr>events := events w @
                [GenerateText (generateParams env (get_prop body ''prompt'')
                                 (system_template t v)),
                 ConsoleError ''watsonx error:'' (error_detail e)]\<rparr>)"
    if "\<not> nullish body"
      and "to_string (with_default (get_prop body ''task'') (JStr ''rewrite'')) = Inr t"
      and "to_string (with_default (get_prop body ''tone'') (JStr ''Neutral'')) = Inr v"
      and "wx (generateParams env (get_prop body ''prompt'') (system_template t v)) = Inl e"
    using that(4) by (simp add: generate_handler_call [OF that(1-3) refl])
  from a b show ?thesis by blast
qed

lemma tts_throws:
  "(nullish body
    \<longrightarrow> tts_handler env synthesize repair header_ok body w
          = (failure ''TTS failed'',
             w\<lparr>events := events w @ [ConsoleError ''TTS error:'' (Whole TypeError)]\<rparr>))
   \<and> (\<not> nullish body
      \<and> P = \<lparr>tts_text = get_prop body ''text'',
              tts_accept = with_default (get_prop body ''format'') (JStr ''audio/mp3''),
              tts_voice = with_default (get_prop body ''voice'')
                (or_else (env_get env ''TTS_VOICE'') (JStr ''en-US_AllisonV3Voice''))\<rparr>
    \<longrightarrow> (synthesize P = Inl e
          \<longrightarrow> tts_handler env synthesize repair header_ok body w
                = (failure ''TTS failed'',
                   w\<lparr>events := events w @
                      [Synthesize P, ConsoleError ''TTS error:'' (error_detail e)]\<rparr>))
        \<and> (synthesize P = Inr stream \<and> repair stream = Inl e
          \<longrightarrow> tts_handler env synthesize repair header_ok body w
                = (failure ''TTS failed'',
                   w\<lparr>events := events w @
                      [Synthesize P, RepairWavHeaderStream stream,
                       ConsoleError ''TTS error:'' (error_detail e)]\<rparr>))
        \<and> (synthesize P = Inr stream \<and> repair stream = Inr audio
             \<and> \<not> header_ok (tts_accept P)
          \<longrightarrow> tts_handler env synthesize repair header_ok body w
                = (failure ''TTS failed'',
                   w\<lparr>events := events w @
                      [Synthesize P, RepairWavHeaderStream stream,
                       ConsoleError ''TTS error:'' (Whole InvalidHeader)]\<rparr>)))"
proof -
  have c: "tts_handler env synthesize repair header_ok body w
          = (failure ''TTS failed'',
             w\<lparr>events := events w @ [ConsoleError ''TTS error:'' (Whole TypeError)]\<rparr>)"
    if "nullish body"
    using that by (rule tts_handler_no_call)
  have d: "(synthesize P = Inl e
          \<longrightarrow> tts_handler env synthesize repair header_ok body w
                = (failure ''TTS failed'',
                   w\<lparr>events := events w @
                      [Synthesize P, ConsoleError ''TTS error:'' (error_detail e)]\<rparr>))
        \<and> (synthesize P = Inr stream \<and> repair stream = Inl e
          \<longrightarrow> tts_handler env synthesize repair header_ok body w
                = (failure ''TTS failed'',
                   w\<lparr>events := events w @
                      [Synthesize P, RepairWavHeaderStream stream,
                       ConsoleError ''TTS error:'' (error_detail e)]\<rparr>))
        \<and> (synthesize P = Inr stream \<and> repair stream = Inr audio
             \<and> \<not> header_ok (tts_accept P)
          \<longrightarrow> tts_handler env synthesize repair header_ok body w
                = (failure ''TTS failed'',
                   w\<lparr>events := events w @
                      [Synthesize P, RepairWavHeaderStream stream,
                       ConsoleError ''TTS error:'' (Whole InvalidHeader)]\<rparr>))"
    if "\<not> nullish body"
      and "P = \<lparr>tts_text = get_prop body ''text'',
              tts_accept = with_default (get_prop body ''format'') (JStr ''audio/mp3''),
              tts_voice = with_default (get_prop body ''voice'')
                (or_else (env_get env ''TTS_VOICE'') (JStr ''en-US_AllisonV3Voice''))\<rparr>"
    by (simp add: tts_handler_call [OF that])
  from c d show ?thesis by blast
qed

lemma stt_throws:
  "stt_handler recognize None w
     = (failure ''STT failed'',
        w\<lparr>events := events w @ [ConsoleError ''STT error:'' (Whole TypeError)]\<rparr>)
   \<and> (Q = \<lparr>stt_audio = path f,
            stt_contentType = or_else (mimetype f) (JStr ''audio/webm''),
            stt_model = ''en-US_BroadbandModel''\<rparr>
    \<longrightarrow> (recognize Q = Inl e
          \<longrightarrow> stt_handler recognize (Some f) w
                = (failure ''STT failed'',
                   w\<lparr>events := events w @
                      [CreateReadStream (path f), Recognize Q,
                       ConsoleError ''STT error:'' (error_detail e)]\<rparr>))
        \<and> (recognize Q = Inr sttResp \<and> transcript_of sttResp = Inl e
          \<longrightarrow> stt_handler recognize (Some f) w
                = (failure ''STT failed'',
                   w\<lparr>files := files w - {path f},
                     events := events w @
                      [CreateReadStream (path f), Recognize Q, Unlink (path f),
                       ConsoleError ''STT error:'' (error_detail e)]\<rparr>)))"
proof -
  have d: "(recognize Q = Inl e
          \<longrightarrow> stt_handler recognize (Some f) w
                = (failure ''STT failed'',
                   w\<lparr>events := events w @
                      [CreateReadStream (path f), Recognize Q,
                       ConsoleError ''STT error:'' (error_detail e)]\<rparr>))
        \<and> (recognize Q = Inr sttResp \<and> transcript_of sttResp = Inl e
          \<longrightarrow> stt_handler recognize (Some f) w
                = (failure ''STT failed'',
                   w\<lparr>files := files w - {path f},
                     events := events w @
                      [CreateReadStream (path f), Recognize Q, Unlink (path f),
                       ConsoleError ''STT error:'' (error_detail e)]\<rparr>))"
    if "Q = \<lparr>stt_audio = path f,
            stt_contentType = or_else (mimetype f) (JStr ''audio/webm''),
            stt_model = ''en-US_BroadbandModel''\<rparr>"
    by (simp add: stt_handler_call [OF that])
  from d stt_handler_no_file [of recognize w] show ?thesis by blast
qed

subsection \<open>Field paths and optional chaining\<close>

text \<open>Following a field path through objects is what a chain of guarded property reads
  does.\<close>

lemma field_at_undefined: "field_at JUndefined ks = None"
  by (cases ks) simp_all

lemma field_at_get: "field_at r (k # ks) = field_at (get_prop r k) ks"
  by (cases r) (simp_all add: field_at_undefined split: option.splits)

lemma field_at_single:
  "field_at r [k] = (if nullish (opt_prop r k) then None else Some (opt_prop r k))"
  by (simp only: field_at_get opt_prop_get field_at.simps(1))

lemma field_at_pair:
  "field_at r [j, k]
     = (if nullish (opt_prop (opt_prop r j) k) then None
        else Some (opt_prop (opt_prop r j) k))"
  by (simp only: field_at_get opt_prop_get field_at.simps(1))

lemma stringify_defined: "r \<noteq> JUndefined \<Longrightarrow> \<exists>s. JSON_stringify r = JStr s"
  by (cases r) (simp_all add: JSON_stringify_def)

section \<open>The claims\<close>

text \<open>
  \<^bold>\<open>C9.\<close> Whatever the request body, the environment and the provider's behaviour, every
  call the generation handler makes to the provider carries the same decoding parameters:
  greedy decoding, at most 400 new tokens, no stop sequences, temperature 0.2.
\<close>

theorem decoding_parameters_fixed:
  assumes "GenerateText p \<in> set (events (snd (generate_handler env wx body w)))"
    and "GenerateText p \<notin> set (events w)"
  shows "parameters p = \<lparr>decoding_method = ''greedy'', max_new_tokens = 400,
                          stop_sequences = [], temperature = 0.2\<rparr>"
  using assms
  by (cases rule: generate_handler_cases [of env wx body w]) (auto simp: generateParams_def)

theorem decoding_parameters_fixed_witness:
  "GenerateText (generateParams Map.empty (JStr ''hi'') (system_template ''rewrite'' ''Neutral''))
     \<in> set (events (snd (generate_handler Map.empty (\<lambda>p. Inr (JObj []))
          (JObj [(''prompt'', JStr ''hi''), (''temperature'', JNum ''1.5''),
                 (''max_new_tokens'', JNum ''9999''),
                 (''parameters'', JObj [(''decoding_method'', JStr ''sample'')])])
          \<lparr>files = {}, events = []\<rparr>)))
   \<and> GenerateText (generateParams Map.empty (JStr ''hi'') (system_template ''rewrite'' ''Neutral''))
     \<notin> set (events \<lparr>files = {}, events = []\<rparr>)
   \<and> parameters (generateParams Map.empty (JStr ''hi'') (system_template ''rewrite'' ''Neutral''))
     = \<lparr>decoding_method = ''greedy'', max_new_tokens = 400,
        stop_sequences = [], temperature = 0.2\<rparr>"
proof -
  have in_run:
    "GenerateText (generateParams Map.empty (JStr ''hi'') (system_template ''rewrite'' ''Neutral''))
     \<in> set (events (snd (generate_handler Map.empty (\<lambda>p. Inr (JObj []))
          (JObj [(''prompt'', JStr ''hi''), (''temperature'', JNum ''1.5''),
                 (''max_new_tokens'', JNum ''9999''),
                 (''parameters'', JObj [(''decoding_method'', JStr ''sample'')])])
          \<lparr>files = {}, events = []\<rparr>)))"
    by (simp add: generate_handler_def generate_try_def handler_defs with_default_def)
  have fresh:
    "GenerateText (generateParams Map.empty (JStr ''hi'') (system_template ''rewrite'' ''Neutral''))
     \<notin> set (events \<lparr>files = {}, events = []\<rparr>)"
    by simp
  from decoding_parameters_fixed [OF in_run fresh] in_run fresh show ?thesis
    by blast
qed

text \<open>
  \<^bold>\<open>C1.\<close> The temporary file is deleted only on the path where the provider call resolves:
  \<^verbatim>\<open>fs.unlink\<close> stands after the \<^verbatim>\<open>await\<close>, inside the \<^verbatim>\<open>try\<close> block, and the
  \<^verbatim>\<open>catch\<close> block has none. For an upload at \<^verbatim>\<open>uploads/3f2a\<close> and a provider that
  rejects, the handler answers 500, issues no deletion and leaves the file on disk; for
  the same upload and a provider that resolves, it issues the deletion and the file is
  gone.
\<close>

theorem stt_failure_keeps_file:
  "stt_handler (\<lambda>p. Inl (Rejected (JObj [(''message'', JStr ''timeout'')])))
      (Some \<lparr>path = ''uploads/3f2a'', mimetype = JStr ''audio/webm''\<rparr>)
      \<lparr>files = {''uploads/3f2a''}, events = []\<rparr>
   = (\<lparr>status = 500, headers = [], payload = Json (JObj [(''error'', JStr ''STT failed'')])\<rparr>,
      \<lparr>files = {''uploads/3f2a''},
       events =
         [CreateReadStream ''uploads/3f2a'',
          Recognize \<lparr>stt_audio = ''uploads/3f2a'', stt_contentType = JStr ''audio/webm'',
                     stt_model = ''en-US_BroadbandModel''\<rparr>,
          ConsoleError ''STT error:''
            (Whole (Rejected (JObj [(''message'', JStr ''timeout'')])))]\<rparr>)
   \<and> snd (stt_handler (\<lambda>p. Inr (JObj []))
        (Some \<lparr>path = ''uploads/3f2a'', mimetype = JStr ''audio/webm''\<rparr>)
        \<lparr>files = {''uploads/3f2a''}, events = []\<rparr>)
   = \<lparr>files = {},
      events =
        [CreateReadStream ''uploads/3f2a'',
         Recognize \<lparr>stt_audio = ''uploads/3f2a'', stt_contentType = JStr ''audio/webm'',
                    stt_model = ''en-US_BroadbandModel''\<rparr>,
         Unlink ''uploads/3f2a'']\<rparr>"
  by (simp add: stt_handler_def stt_try_def handler_defs unlink_def or_else_def opt_prop_def
      transcript_of_def)

text \<open>
  \<^bold>\<open>C7.\<close> Whatever the body (and so whatever the requested format), the environment and
  the provider's behaviour: when the synthesis handler sends audio bytes, the provider
  resolved to a stream, \<^verbatim>\<open>repairWavHeaderStream\<close> was called on that stream after
  \<^verbatim>\<open>synthesize\<close>, and the bytes sent are the bytes the repair step resolved to.
\<close>

theorem wav_repair_always_applied:
  assumes "payload (fst (tts_handler env synthesize repair header_ok body w)) = Raw b"
  shows "\<exists>params stream.
           synthesize params = Inr stream \<and> repair stream = Inr b
           \<and> events (snd (tts_handler env synthesize repair header_ok body w))
               = events w @ [Synthesize params, RepairWavHeaderStream stream]"
proof (cases "nullish body")
  case True
  with assms show ?thesis
    by (simp add: tts_handler_no_call failure_def)
next
  case False
  from assms show ?thesis
    unfolding tts_handler_call [OF False refl]
    by (auto simp: failure_def res_send_def split: sum.splits if_splits)
qed


theorem wav_repair_always_applied_witness:
  "payload (fst (tts_handler Map.empty (\<lambda>p. Inr [0x49, 0x44, 0x33]) (\<lambda>s. Inr (s @ [0]))
       (\<lambda>v. True) (JObj [(''text'', JStr ''hello''), (''format'', JStr ''audio/mp3'')])
       \<lparr>files = {}, events = []\<rparr>)) = Raw [0x49, 0x44, 0x33, 0]
   \<and> (\<exists>params stream.
         (\<lambda>p. Inr [0x49, 0x44, 0x33]) params = (Inr stream :: thrown + bytes)
         \<and> (\<lambda>s. Inr (s @ [0])) stream = (Inr [0x49, 0x44, 0x33, 0] :: thrown + bytes)
         \<and> events (snd (tts_handler Map.empty (\<lambda>p. Inr [0x49, 0x44, 0x33]) (\<lambda>s. Inr (s @ [0]))
              (\<lambda>v. True) (JObj [(''text'', JStr ''hello''), (''format'', JStr ''audio/mp3'')])
              \<lparr>files = {}, events = []\<rparr>))
            = events \<lparr>files = {}, events = []\<rparr> @ [Synthesize params, RepairWavHeaderStream stream])"
proof -
  have sent: "payload (fst (tts_handler Map.empty (\<lambda>p. Inr [0x49, 0x44, 0x33]) (\<lambda>s. Inr (s @ [0]))
       (\<lambda>v. True) (JObj [(''text'', JStr ''hello''), (''format'', JStr ''audio/mp3'')])
       \<lparr>files = {}, events = []\<rparr>)) = Raw [0x49, 0x44, 0x33, 0]"
    by (simp add: tts_handler_def tts_try_def handler_defs with_default_def res_send_def)
  from wav_repair_always_applied [OF sent] sent show ?thesis
    by blast
qed

text \<open>
  \<^bold>\<open>C3.\<close> When the provider's answer reads as a list of segments, each with the
  transcripts of its ranked alternatives, the transcript is the top-ranked transcript of
  each segment (the empty string for a segment without alternatives), joined in segment
  order by single spaces and trimmed; that string is what the handler answers with. For
  the empty list of segments it is the empty string.
\<close>

theorem transcript_joins_top_alternatives:
  assumes "segments_of sttResp = Some segs"
  shows "transcript_of sttResp = Inr (JStr (spec_transcript segs))
     \<and> ((\<forall>p. recognize p = Inr sttResp) \<longrightarrow>
          fst (stt_handler recognize (Some f) w)
            = \<lparr>status = 200, headers = [],
               payload = Json (JObj [(''transcript'', JStr (spec_transcript segs))])\<rparr>)
     \<and> (segs = [] \<longrightarrow> transcript_of sttResp = Inr (JStr []))"
proof -
  have t: "transcript_of sttResp = Inr (JStr (spec_transcript segs))"
    using assms by (rule transcript_of_typed)
  have e: "spec_transcript [] = []"
    by (simp add: spec_transcript_def trim_def)
  from t e show ?thesis
    by (simp add: stt_handler_call [OF refl] res_json_def)
qed

theorem transcript_joins_top_alternatives_witness:
  "segments_of
     (JObj [(''result'', JObj [(''result_index'', JNum ''0''), (''results'',
        JArr [JObj [(''final'', JBool True),
                    (''alternatives'', JArr [JObj [(''transcript'', JStr ''hello ''),
                                                   (''confidence'', JNum ''0.94'')],
                                             JObj [(''transcript'', JStr ''hallo '')]])],
              JObj [(''final'', JBool True), (''alternatives'', JArr [])],
              JObj [(''alternatives'', JArr [JObj [(''transcript'', JStr ''world '')]])]])])])
     = Some [[''hello '', ''hallo ''], [], [''world '']]
   \<and> transcript_of
     (JObj [(''result'', JObj [(''result_index'', JNum ''0''), (''results'',
        JArr [JObj [(''final'', JBool True),
                    (''alternatives'', JArr [JObj [(''transcript'', JStr ''hello ''),
                                                   (''confidence'', JNum ''0.94'')],
                                             JObj [(''transcript'', JStr ''hallo '')]])],
              JObj [(''final'', JBool True), (''alternatives'', JArr [])],
              JObj [(''alternatives'', JArr [JObj [(''transcript'', JStr ''world '')]])]])])])
     = Inr (JStr ''hello   world'')"
proof -
  have typed: "segments_of
     (JObj [(''result'', JObj [(''result_index'', JNum ''0''), (''results'',
        JArr [JObj [(''final'', JBool True),
                    (''alternatives'', JArr [JObj [(''transcript'', JStr ''hello ''),
                                                   (''confidence'', JNum ''0.94'')],
                                             JObj [(''transcript'', JStr ''hallo '')]])],
              JObj [(''final'', JBool True), (''alternatives'', JArr [])],
              JObj [(''alternatives'', JArr [JObj [(''transcript'', JStr ''world '')]])]])])])
     = Some [[''hello '', ''hallo ''], [], [''world '']]"
    by (simp add: segments_of_def)
  have spec: "spec_transcript [[''hello '', ''hallo ''], [], [''world '']] = ''hello   world''"
    by (simp add: spec_transcript_def trim_def is_space_def)
  from transcript_joins_top_alternatives [OF typed] typed spec show ?thesis
    by simp
qed

text \<open>
  \<^bold>\<open>C5\<close> (as amended). For a generation request whose task, after defaulting, is the
  string \<open>t\<close> and whose tone is the string \<open>v\<close>, exactly one provider call is made. Its
  system instruction is \<^verbatim>\<open>You are EchoVerse's writer. Task: t.\<close>, a line break,
  \<^verbatim>\<open>Tone: v. Keep meaning intact. Output only the transformed text.\<close>, so it holds \<open>t\<close> and
  \<open>v\<close> verbatim; it travels in \<^verbatim>\<open>context.system_prompt\<close>, apart from the input, which is
  the caller's prompt as it came.
\<close>

theorem system_instruction_form:
  assumes "\<not> nullish body"
    and "with_default (get_prop body ''task'') (JStr ''rewrite'') = JStr t"
    and "with_default (get_prop body ''tone'') (JStr ''Neutral'') = JStr v"
  shows "\<exists>p. gen_calls (events (snd (generate_handler env wx body w)))
               = gen_calls (events w) @ [p]
     \<and> system_prompt p
         = ''You are EchoVerse'' @ [CHR 0x27] @ ''s writer. Task: '' @ t @ ''.'' @ [CHR 0x0A]
           @ ''Tone: '' @ v @ ''. Keep meaning intact. Output only the transformed text.''
     \<and> input p = get_prop body ''prompt''"
proof -
  have "gen_calls (events (snd (generate_handler env wx body w)))
           = gen_calls (events w)
             @ [generateParams env (get_prop body ''prompt'') (system_template t v)]"
    by (rule generate_handler_gen_calls) (simp_all add: assms)
  then show ?thesis
    by (simp add: generateParams_def system_template_def)
qed

theorem system_instruction_form_witness:
  "\<not> nullish (JObj [(''prompt'', JStr ''The sky is blue.''), (''tone'', JStr ''Formal'')])
   \<and> (\<exists>p. gen_calls (events (snd (generate_handler Map.empty (\<lambda>p. Inr (JObj []))
                 (JObj [(''prompt'', JStr ''The sky is blue.''), (''tone'', JStr ''Formal'')])
                 \<lparr>files = {}, events = []\<rparr>))) = [p]
          \<and> system_prompt p
              = ''You are EchoVerse'' @ [CHR 0x27] @ ''s writer. Task: rewrite.'' @ [CHR 0x0A]
                @ ''Tone: Formal. Keep meaning intact. Output only the transformed text.''
          \<and> input p = JStr ''The sky is blue.'')"
  using system_instruction_form
      [of "JObj [(''prompt'', JStr ''The sky is blue.''), (''tone'', JStr ''Formal'')]"
          "''rewrite''" "''Formal''" Map.empty "\<lambda>p. Inr (JObj [])"
          "\<lparr>files = {}, events = []\<rparr>"]
  by (simp add: with_default_def)

text \<open>
  Against \<^bold>\<open>C5\<close> as stated: for the task \<^verbatim>\<open>rewrite\<close> and the tone \<^verbatim>\<open>Formal\<close> the
  instruction sent is not the specification's
  \<^verbatim>\<open>You are a writer. Task: rewrite. Tone: Formal. Keep meaning intact. Output only the transformed text.\<close>
\<close>

theorem preamble_wording_differs:
  "map system_prompt (gen_calls (events (snd (generate_handler Map.empty (\<lambda>p. Inr (JObj []))
       (JObj [(''prompt'', JStr ''The sky is blue.''), (''task'', JStr ''rewrite''),
              (''tone'', JStr ''Formal'')])
       \<lparr>files = {}, events = []\<rparr>))))
     \<noteq> [spec_preamble ''rewrite'' ''Formal'']"
  by (simp add: generate_handler_def generate_try_def handler_defs with_default_def
      generateParams_def system_template_def spec_preamble_def)

text \<open>
  \<^bold>\<open>C2.\<close> For every provider response \<open>r\<close> the normaliser returns the first present
  value in the priority order \<^verbatim>\<open>r.result.generated_text\<close>, \<^verbatim>\<open>r.generated_text\<close>,
  \<^verbatim>\<open>r.result.output_text\<close>, and the serialised response when none is present; for every
  \<open>r\<close> other than \<^verbatim>\<open>undefined\<close> that serialisation is a string. A response holding both
  \<^verbatim>\<open>generated_text\<close> and \<^verbatim>\<open>result.output_text\<close> gives the former. When the provider
  call of the generation handler resolves to \<open>r\<close>, the handler answers with status 200 and
  the body \<^verbatim>\<open>{"text": x}\<close>, \<open>x\<close> being that value.
\<close>

theorem extraction_priority:
  "normalize_text r
     = (case first_present r candidate_paths of Some v \<Rightarrow> v | None \<Rightarrow> JSON_stringify r)
   \<and> (r \<noteq> JUndefined \<longrightarrow> (\<exists>s. JSON_stringify r = JStr s))
   \<and> normalize_text (JObj [(''generated_text'', JStr ''first''),
                            (''result'', JObj [(''output_text'', JStr ''second'')])])
       = JStr ''first''
   \<and> (\<not> nullish body
        \<and> to_string (with_default (get_prop body ''task'') (JStr ''rewrite'')) = Inr t
        \<and> to_string (with_default (get_prop body ''tone'') (JStr ''Neutral'')) = Inr v
        \<and> wx (generateParams env (get_prop body ''prompt'') (system_template t v)) = Inr r
      \<longrightarrow> fst (generate_handler env wx body w)
            = \<lparr>status = 200, headers = [],
               payload = Json (JObj [(''text'',
                 case first_present r candidate_paths of
                   Some v \<Rightarrow> v
                 | None \<Rightarrow> JSON_stringify r)])\<rparr>)"
proof -
  have n: "normalize_text r
     = (case first_present r candidate_paths of Some v \<Rightarrow> v | None \<Rightarrow> JSON_stringify r)"
    by (simp add: normalize_text_def candidate_paths_def coalesce_def field_at_single
        field_at_pair del: field_at.simps)
  have s: "r \<noteq> JUndefined \<longrightarrow> (\<exists>s. JSON_stringify r = JStr s)"
    using stringify_defined by blast
  have b: "normalize_text (JObj [(''generated_text'', JStr ''first''),
                            (''result'', JObj [(''output_text'', JStr ''second'')])])
       = JStr ''first''"
    by (simp add: normalize_text_def coalesce_def opt_prop_def)
  have h: "fst (generate_handler env wx body w)
            = \<lparr>status = 200, headers = [],
               payload = Json (JObj [(''text'', normalize_text r)])\<rparr>"
    if "\<not> nullish body"
      and "to_string (with_default (get_prop body ''task'') (JStr ''rewrite'')) = Inr t"
      and "to_string (with_default (get_prop body ''tone'') (JStr ''Neutral'')) = Inr v"
      and "wx (generateParams env (get_prop body ''prompt'') (system_template t v)) = Inr r"
    using that(4) by (simp add: generate_handler_call [OF that(1-3) refl] res_json_def)
  from n s b h show ?thesis
    by (simp del: normalize_text_def)
qed

theorem extraction_priority_witness:
  "\<not> nullish (JObj [(''prompt'', JStr ''The sky is blue.''), (''tone'', JStr ''Formal'')])
   \<and> JObj [(''generated_text'', JStr ''The sky exhibits a blue hue.'')] \<noteq> JUndefined
   \<and> fst (generate_handler Map.empty
        (\<lambda>p. Inr (JObj [(''generated_text'', JStr ''The sky exhibits a blue hue.'')]))
        (JObj [(''prompt'', JStr ''The sky is blue.''), (''tone'', JStr ''Formal'')])
        \<lparr>files = {}, events = []\<rparr>)
      = \<lparr>status = 200, headers = [],
         payload = Json (JObj [(''text'', JStr ''The sky exhibits a blue hue.'')])\<rparr>
   \<and> fst (generate_handler Map.empty
        (\<lambda>p. Inr (JObj [(''result'', JObj [(''output_text'', JStr ''only'')])]))
        (JObj [(''prompt'', JStr ''The sky is blue.''), (''tone'', JStr ''Formal'')])
        \<lparr>files = {}, events = []\<rparr>)
      = \<lparr>status = 200, headers = [], payload = Json (JObj [(''text'', JStr ''only'')])\<rparr>
   \<and> fst (generate_handler Map.empty
        (\<lambda>p. Inr (JObj [(''results'', JArr [JObj [(''n'', JNum ''3'')]])]))
        (JObj [(''prompt'', JStr ''The sky is blue.''), (''tone'', JStr ''Formal'')])
        \<lparr>files = {}, events = []\<rparr>)
      = \<lparr>status = 200, headers = [],
         payload = Json (JObj [(''text'',
           JStr (''{'' @ [CHR 0x22] @ ''results'' @ [CHR 0x22] @ '':[{'' @ [CHR 0x22] @ ''n''
                 @ [CHR 0x22] @ '':3}]}''))])\<rparr>"
  using extraction_priority
      [of "JObj [(''generated_text'', JStr ''The sky exhibits a blue hue.'')]"
          "JObj [(''prompt'', JStr ''The sky is blue.''), (''tone'', JStr ''Formal'')]"
          "''rewrite''" "''Formal''"
          "\<lambda>p. Inr (JObj [(''generated_text'', JStr ''The sky exhibits a blue hue.'')])"
          Map.empty "\<lparr>files = {}, events = []\<rparr>"]
    extraction_priority
      [of "JObj [(''result'', JObj [(''output_text'', JStr ''only'')])]"
          "JObj [(''prompt'', JStr ''The sky is blue.''), (''tone'', JStr ''Formal'')]"
          "''rewrite''" "''Formal''"
          "\<lambda>p. Inr (JObj [(''result'', JObj [(''output_text'', JStr ''only'')])])"
          Map.empty "\<lparr>files = {}, events = []\<rparr>"]
    extraction_priority
      [of "JObj [(''results'', JArr [JObj [(''n'', JNum ''3'')]])]"
          "JObj [(''prompt'', JStr ''The sky is blue.''), (''tone'', JStr ''Formal'')]"
          "''rewrite''" "''Formal''"
          "\<lambda>p. Inr (JObj [(''results'', JArr [JObj [(''n'', JNum ''3'')]])])"
          Map.empty "\<lparr>files = {}, events = []\<rparr>"]
  by (simp add: candidate_paths_def JSON_stringify_def quote_def quote_char_def
      with_default_def)

text \<open>
  \<^bold>\<open>C4.\<close> Each handler answers either with status 200 or with its one failure answer:
  status 500 and the body \<^verbatim>\<open>{"error": m}\<close>, where \<open>m\<close> is \<^verbatim>\<open>Granite generation failed\<close>,
  \<^verbatim>\<open>TTS failed\<close> or \<^verbatim>\<open>STT failed\<close>. Every throw of a handler body gives that answer, in
  which the error does not occur, and one logged line that holds the error's detail:
  a body that does not destructure or a label that does not convert to text, the provider
  call rejecting, the repair step rejecting, \<^verbatim>\<open>res.setHeader\<close> refusing the format, the
  absent \<^verbatim>\<open>req.file\<close>, and the transcript extraction throwing on the provider's answer.
\<close>

theorem error_collapse:
  "(status (fst (generate_handler env wx body w)) = 200
      \<or> fst (generate_handler env wx body w) = failure ''Granite generation failed'')
   \<and> (status (fst (tts_handler env synthesize repair header_ok body w)) = 200
      \<or> fst (tts_handler env synthesize repair header_ok body w) = failure ''TTS failed'')
   \<and> (status (fst (stt_handler recognize req_file w)) = 200
      \<or> fst (stt_handler recognize req_file w) = failure ''STT failed'')
   \<and> ((nullish body
      \<or> to_string (with_default (get_prop body ''task'') (JStr ''rewrite'')) = Inl e
      \<or> to_string (with_default (get_prop body ''tone'') (JStr ''Neutral'')) = Inl e
    \<longrightarrow> generate_handler env wx body w
          = (failure ''Granite generation failed'',
             w\<lparr>events := events w @ [ConsoleError ''watsonx error:'' (Whole TypeError)]\<rparr>))
   \<and> (\<not> nullish body
      \<and> to_string (with_default (get_prop body ''task'') (JStr ''rewrite'')) = Inr t
      \<and> to_string (with_default (get_prop body ''tone'') (JStr ''Neutral'')) = Inr v
      \<and> wx (generateParams env (get_prop body ''prompt'') (system_template t v)) = Inl e
    \<longrightarrow> generate_handler env wx body w
          = (failure ''Granite generation failed'',
             w\<lparr>events := events w @
                [GenerateText (generateParams env (get_prop body ''prompt'')
                                 (system_template t v)),
                 ConsoleError ''watsonx error:'' (error_detail e)]\<rparr>)))
   \<and> ((nullish body
    \<longrightarrow> tts_handler env synthesize repair header_ok body w
          = (failure ''TTS failed'',
             w\<lparr>events := events w @ [ConsoleError ''TTS error:'' (Whole TypeError)]\<rparr>))
   \<and> (\<not> nullish body
      \<and> P = \<lparr>tts_text = get_prop body ''text'',
              tts_accept = with_default (get_prop body ''format'') (JStr ''audio/mp3''),
              tts_voice = with_default (get_prop body ''voice'')
                (or_else (env_get env ''TTS_VOICE'') (JStr ''en-US_AllisonV3Voice''))\<rparr>
    \<longrightarrow> (synthesize P = Inl e
          \<longrightarrow> tts_handler env synthesize repair header_ok body w
                = (failure ''TTS failed'',
                   w\<lparr>events := events w @
                      [Synthesize P, ConsoleError ''TTS error:'' (error_detail e)]\<rparr>))
        \<and> (synthesize P = Inr stream \<and> repair stream = Inl e
          \<longrightarrow> tts_handler env synthesize repair header_ok body w
                = (failure ''TTS failed'',
                   w\<lparr>events := events w @
                      [Synthesize P, RepairWavHeaderStream stream,
                       ConsoleError ''TTS error:'' (error_detail e)]\<rparr>))
        \<and> (synthesize P = Inr stream \<and> repair stream = Inr audio
             \<and> \<not> header_ok (tts_accept P)
          \<longrightarrow> tts_handler env synthesize repair header_ok body w
                = (failure ''TTS failed'',
                   w\<lparr>events := events w @
                      [Synthesize P, RepairWavHeaderStream stream,
                       ConsoleError ''TTS error:'' (Whole InvalidHeader)]\<rparr>))))
   \<and> (stt_handler recognize None w
     = (failure ''STT failed'',
        w\<lparr>events := events w @ [ConsoleError ''STT error:'' (Whole TypeError)]\<rparr>)
   \<and> (Q = \<lparr>stt_audio = path f,
            stt_contentType = or_else (mimetype f) (JStr ''audio/webm''),
            stt_model = ''en-US_BroadbandModel''\<rparr>
    \<longrightarrow> (recognize Q = Inl e
          \<longrightarrow> stt_handler recognize (Some f) w
                = (failure ''STT failed'',
                   w\<lparr>events := events w @
                      [CreateReadStream (path f), Recognize Q,
                       ConsoleError ''STT error:'' (error_detail e)]\<rparr>))
        \<and> (recognize Q = Inr sttResp \<and> transcript_of sttResp = Inl e
          \<longrightarrow> stt_handler recognize (Some f) w
                = (failure ''STT failed'',
                   w\<lparr>files := files w - {path f},
                     events := events w @
                      [CreateReadStream (path f), Recognize Q, Unlink (path f),
                       ConsoleError ''STT error:'' (error_detail e)]\<rparr>))))"
  using generate_outcome [of env wx body w]
    tts_outcome [of env synthesize repair header_ok body w]
    stt_outcome [of recognize req_file w]
    generate_throws [of body e env wx w t v]
    tts_throws [of body env synthesize repair header_ok w P e stream audio]
    stt_throws [of recognize w Q f e sttResp]
  by (intro conjI) blast+

theorem error_collapse_witness:
  "\<not> nullish (JObj [(''prompt'', JStr ''The sky is blue.'')])
   \<and> generate_handler Map.empty (\<lambda>p. Inl (Rejected (JObj [(''response'', JObj [(''result'', JStr ''401: bad key sk-123'')])]))) (JObj [(''prompt'', JStr ''The sky is blue.'')]) \<lparr>files = {''uploads/3f2a''}, events = []\<rparr>
       = (\<lparr>status = 500, headers = [], payload = Json (JObj [(''error'', JStr ''Granite generation failed'')])\<rparr>,
          \<lparr>files = {''uploads/3f2a''},
           events = [GenerateText (generateParams Map.empty (JStr ''The sky is blue.'')
                       (system_template ''rewrite'' ''Neutral'')),
                     ConsoleError ''watsonx error:''
                       (Payload (JStr ''401: bad key sk-123''))]\<rparr>)
   \<and> tts_handler Map.empty (\<lambda>p. Inr [1, 2, 3]) (\<lambda>s. Inl (Rejected (JObj [(''response'', JObj [(''result'', JStr ''401: bad key sk-123'')])]))) (\<lambda>v. True)
         (JObj [(''prompt'', JStr ''The sky is blue.'')]) \<lparr>files = {''uploads/3f2a''}, events = []\<rparr>
       = (\<lparr>status = 500, headers = [], payload = Json (JObj [(''error'', JStr ''TTS failed'')])\<rparr>,
          \<lparr>files = {''uploads/3f2a''},
           events = [Synthesize \<lparr>tts_text = JUndefined, tts_accept = JStr ''audio/mp3'', tts_voice = JStr ''en-US_AllisonV3Voice''\<rparr>,
                     RepairWavHeaderStream [1, 2, 3],
                     ConsoleError ''TTS error:'' (Payload (JStr ''401: bad key sk-123''))]\<rparr>)
   \<and> stt_handler (\<lambda>p. Inl (Rejected (JObj [(''response'', JObj [(''result'', JStr ''401: bad key sk-123'')])]))) (Some \<lparr>path = ''uploads/3f2a'', mimetype = JStr ''audio/webm''\<rparr>) \<lparr>files = {''uploads/3f2a''}, events = []\<rparr>
       = (\<lparr>status = 500, headers = [], payload = Json (JObj [(''error'', JStr ''STT failed'')])\<rparr>,
          \<lparr>files = {''uploads/3f2a''},
           events = [CreateReadStream ''uploads/3f2a'',
                     Recognize \<lparr>stt_audio = ''uploads/3f2a'', stt_contentType = JStr ''audio/webm'', stt_model = ''en-US_BroadbandModel''\<rparr>,
                     ConsoleError ''STT error:'' (Payload (JStr ''401: bad key sk-123''))]\<rparr>)
   \<and> nullish JNull
   \<and> generate_handler Map.empty (\<lambda>p. Inr (JObj [])) JNull \<lparr>files = {''uploads/3f2a''}, events = []\<rparr>
       = (\<lparr>status = 500, headers = [], payload = Json (JObj [(''error'', JStr ''Granite generation failed'')])\<rparr>,
          \<lparr>files = {''uploads/3f2a''},
           events = [ConsoleError ''watsonx error:'' (Whole TypeError)]\<rparr>)
   \<and> tts_handler Map.empty (\<lambda>p. Inr [1, 2, 3]) (\<lambda>s. Inr s) (\<lambda>v. True) JNull \<lparr>files = {''uploads/3f2a''}, events = []\<rparr>
       = (\<lparr>status = 500, headers = [], payload = Json (JObj [(''error'', JStr ''TTS failed'')])\<rparr>,
          \<lparr>files = {''uploads/3f2a''},
           events = [ConsoleError ''TTS error:'' (Whole TypeError)]\<rparr>)
   \<and> transcript_of (JObj [(''result'', JObj [(''results'', JStr ''oops'')])]) = Inl TypeError
   \<and> stt_handler (\<lambda>p. Inr (JObj [(''result'', JObj [(''results'', JStr ''oops'')])])) (Some \<lparr>path = ''uploads/3f2a'', mimetype = JStr ''audio/webm''\<rparr>) \<lparr>files = {''uploads/3f2a''}, events = []\<rparr>
       = (\<lparr>status = 500, headers = [], payload = Json (JObj [(''error'', JStr ''STT failed'')])\<rparr>,
          \<lparr>files = {},
           events = [CreateReadStream ''uploads/3f2a'',
                     Recognize \<lparr>stt_audio = ''uploads/3f2a'', stt_contentType = JStr ''audio/webm'', stt_model = ''en-US_BroadbandModel''\<rparr>,
                     Unlink ''uploads/3f2a'',
                     ConsoleError ''STT error:'' (Whole TypeError)]\<rparr>)
   \<and> tts_handler Map.empty (\<lambda>p. Inr [1, 2, 3]) (\<lambda>s. Inr s) (\<lambda>v. False)
         (JObj [(''prompt'', JStr ''The sky is blue.'')]) \<lparr>files = {''uploads/3f2a''}, events = []\<rparr>
       = (\<lparr>status = 500, headers = [], payload = Json (JObj [(''error'', JStr ''TTS failed'')])\<rparr>,
          \<lparr>files = {''uploads/3f2a''},
           events = [Synthesize \<lparr>tts_text = JUndefined, tts_accept = JStr ''audio/mp3'', tts_voice = JStr ''en-US_AllisonV3Voice''\<rparr>,
                     RepairWavHeaderStream [1, 2, 3],
                     ConsoleError ''TTS error:'' (Whole InvalidHeader)]\<rparr>)"
  using error_collapse
      [where env = Map.empty and body = "JObj [(''prompt'', JStr ''The sky is blue.'')]" and w = "\<lparr>files = {''uploads/3f2a''}, events = []\<rparr>"
         and e = "Rejected (JObj [(''response'', JObj [(''result'', JStr ''401: bad key sk-123'')])])" and t = "''rewrite''" and v = "''Neutral''"
         and wx = "\<lambda>p. Inl (Rejected (JObj [(''response'', JObj [(''result'', JStr ''401: bad key sk-123'')])]))"
         and synthesize = "\<lambda>p. Inr [1, 2, 3]" and repair = "\<lambda>s. Inl (Rejected (JObj [(''response'', JObj [(''result'', JStr ''401: bad key sk-123'')])]))"
         and header_ok = "\<lambda>v. True" and stream = "[1, 2, 3]"
         and P = "\<lparr>tts_text = JUndefined, tts_accept = JStr ''audio/mp3'', tts_voice = JStr ''en-US_AllisonV3Voice''\<rparr>"
         and recognize = "\<lambda>p. Inl (Rejected (JObj [(''response'', JObj [(''result'', JStr ''401: bad key sk-123'')])]))"
         and f = "\<lparr>path = ''uploads/3f2a'', mimetype = JStr ''audio/webm''\<rparr>"
         and Q = "\<lparr>stt_audio = ''uploads/3f2a'', stt_contentType = JStr ''audio/webm'', stt_model = ''en-US_BroadbandModel''\<rparr>"]
    error_collapse
      [where env = Map.empty and body = JNull and w = "\<lparr>files = {''uploads/3f2a''}, events = []\<rparr>"
         and e = TypeError
         and wx = "\<lambda>p. Inr (JObj [])"
         and synthesize = "\<lambda>p. Inr [1, 2, 3]" and repair = "\<lambda>s. Inr s"
         and header_ok = "\<lambda>v. True"
         and recognize = "\<lambda>p. Inr (JObj [(''result'', JObj [(''results'', JStr ''oops'')])])"
         and sttResp = "JObj [(''result'', JObj [(''results'', JStr ''oops'')])]"
         and f = "\<lparr>path = ''uploads/3f2a'', mimetype = JStr ''audio/webm''\<rparr>"
         and Q = "\<lparr>stt_audio = ''uploads/3f2a'', stt_contentType = JStr ''audio/webm'', stt_model = ''en-US_BroadbandModel''\<rparr>"]
    error_collapse
      [where env = Map.empty and body = "JObj [(''prompt'', JStr ''The sky is blue.'')]" and w = "\<lparr>files = {''uploads/3f2a''}, events = []\<rparr>"
         and synthesize = "\<lambda>p. Inr [1, 2, 3]" and repair = "\<lambda>s. Inr s"
         and header_ok = "\<lambda>v. False" and stream = "[1, 2, 3]" and audio = "[1, 2, 3]"
         and P = "\<lparr>tts_text = JUndefined, tts_accept = JStr ''audio/mp3'', tts_voice = JStr ''en-US_AllisonV3Voice''\<rparr>"]
  by (simp add: failure_def with_default_def or_else_def env_get_def opt_prop_def
      transcript_of_def generateParams_def)

text \<open>
  \<^bold>\<open>C8\<close> (as amended). For a synthesis request whose body is not nullish, exactly one
  provider call is made. When \<^verbatim>\<open>voice\<close> is omitted, the voice sent is the environment
  variable \<^verbatim>\<open>TTS_VOICE\<close> when that is set and not empty, and the literal
  \<^verbatim>\<open>en-US_AllisonV3Voice\<close> otherwise. When \<^verbatim>\<open>format\<close> is omitted, the format sent is the
  literal \<^verbatim>\<open>audio/mp3\<close>, whatever the environment holds. When the provider and the
  repair step resolve and \<^verbatim>\<open>res.setHeader\<close> accepts the format, the answer has status
  200 and the repaired bytes, and its \<^verbatim>\<open>Content-Type\<close> is the (possibly defaulted)
  format when that value is truthy and \<^verbatim>\<open>application/octet-stream\<close> when it is falsy;
  every answer with status 200 has that header.
\<close>

theorem tts_defaults:
  assumes "\<not> nullish body"
  shows "\<exists>p. synth_calls (events (snd (tts_handler env synthesize repair header_ok body w)))
               = synth_calls (events w) @ [p]
     \<and> tts_voice p =
         (if get_prop body ''voice'' = JUndefined
          then (case env ''TTS_VOICE'' of
                  None \<Rightarrow> JStr ''en-US_AllisonV3Voice''
                | Some v \<Rightarrow> if v = [] then JStr ''en-US_AllisonV3Voice'' else JStr v)
          else get_prop body ''voice'')
     \<and> tts_accept p =
         (if get_prop body ''format'' = JUndefined then JStr ''audio/mp3''
          else get_prop body ''format'')
     \<and> (\<forall>stream audio.
           synthesize p = Inr stream \<and> repair stream = Inr audio \<and> header_ok (tts_accept p)
           \<longrightarrow> fst (tts_handler env synthesize repair header_ok body w)
                 = \<lparr>status = 200,
                    headers = [(''Content-Type'',
                                if truthy (tts_accept p) then tts_accept p
                                else JStr ''application/octet-stream'')],
                    payload = Raw audio\<rparr>)
     \<and> (status (fst (tts_handler env synthesize repair header_ok body w)) = 200
          \<longrightarrow> headers (fst (tts_handler env synthesize repair header_ok body w))
                = [(''Content-Type'',
                    if truthy (tts_accept p) then tts_accept p
                    else JStr ''application/octet-stream'')])"
proof -
  let ?P = "\<lparr>tts_text = get_prop body ''text'',
              tts_accept = with_default (get_prop body ''format'') (JStr ''audio/mp3''),
              tts_voice = with_default (get_prop body ''voice'')
                (or_else (env_get env ''TTS_VOICE'') (JStr ''en-US_AllisonV3Voice''))\<rparr>"
  have calls: "synth_calls (events (snd (tts_handler env synthesize repair header_ok body w)))
           = synth_calls (events w) @ [?P]"
    by (rule tts_handler_synth_calls [OF assms refl])
  have voice: "tts_voice ?P =
         (if get_prop body ''voice'' = JUndefined
          then (case env ''TTS_VOICE'' of
                  None \<Rightarrow> JStr ''en-US_AllisonV3Voice''
                | Some v \<Rightarrow> if v = [] then JStr ''en-US_AllisonV3Voice'' else JStr v)
          else get_prop body ''voice'')"
    by (simp add: with_default_def default_voice)
  have fmt: "tts_accept ?P =
         (if get_prop body ''format'' = JUndefined then JStr ''audio/mp3''
          else get_prop body ''format'')"
    by (simp add: with_default_def)
  have sent: "fst (tts_handler env synthesize repair header_ok body w)
                 = \<lparr>status = 200,
                    headers = [(''Content-Type'',
                                if truthy (tts_accept ?P) then tts_accept ?P
                                else JStr ''application/octet-stream'')],
                    payload = Raw audio\<rparr>"
    if "synthesize ?P = Inr stream" "repair stream = Inr audio" "header_ok (tts_accept ?P)"
    for stream audio
    using that
    by (simp add: tts_handler_sent [where env = env and body = body, OF assms refl]
        res_send_def)
  have hdr: "status (fst (tts_handler env synthesize repair header_ok body w)) = 200
          \<longrightarrow> headers (fst (tts_handler env synthesize repair header_ok body w))
                = [(''Content-Type'',
                    if truthy (tts_accept ?P) then tts_accept ?P
                    else JStr ''application/octet-stream'')]"
    using tts_handler_headers [OF assms] by simp
  from calls voice fmt sent hdr show ?thesis by blast
qed

theorem tts_defaults_witness:
  "\<not> nullish (JObj [(''text'', JStr ''hello'')])
   \<and> (\<exists>p. synth_calls (events (snd (tts_handler [''TTS_VOICE'' \<mapsto> ''en-GB_KateV3Voice'']
                 (\<lambda>p. Inr [1, 2]) (\<lambda>s. Inr s) (\<lambda>v. True)
                 (JObj [(''text'', JStr ''hello'')]) \<lparr>files = {}, events = []\<rparr>))) = [p]
          \<and> tts_voice p = JStr ''en-GB_KateV3Voice''
          \<and> tts_accept p = JStr ''audio/mp3''
          \<and> fst (tts_handler [''TTS_VOICE'' \<mapsto> ''en-GB_KateV3Voice'']
                 (\<lambda>p. Inr [1, 2]) (\<lambda>s. Inr s) (\<lambda>v. True)
                 (JObj [(''text'', JStr ''hello'')]) \<lparr>files = {}, events = []\<rparr>)
              = \<lparr>status = 200, headers = [(''Content-Type'', JStr ''audio/mp3'')],
                 payload = Raw [1, 2]\<rparr>)
   \<and> \<not> nullish (JObj [(''text'', JStr ''hello''), (''format'', JStr '''')])
   \<and> (\<exists>p. synth_calls (events (snd (tts_handler Map.empty
                 (\<lambda>p. Inr [1, 2]) (\<lambda>s. Inr s) (\<lambda>v. True)
                 (JObj [(''text'', JStr ''hello''), (''format'', JStr '''')])
                 \<lparr>files = {}, events = []\<rparr>))) = [p]
          \<and> tts_voice p = JStr ''en-US_AllisonV3Voice''
          \<and> tts_accept p = JStr ''''
          \<and> fst (tts_handler Map.empty
                 (\<lambda>p. Inr [1, 2]) (\<lambda>s. Inr s) (\<lambda>v. True)
                 (JObj [(''text'', JStr ''hello''), (''format'', JStr '''')])
                 \<lparr>files = {}, events = []\<rparr>)
              = \<lparr>status = 200,
                 headers = [(''Content-Type'', JStr ''application/octet-stream'')],
                 payload = Raw [1, 2]\<rparr>)"
proof -
  have b1: "\<not> nullish (JObj [(''text'', JStr ''hello'')])"
    and b2: "\<not> nullish (JObj [(''text'', JStr ''hello''), (''format'', JStr '''')])"
    by simp_all
  from tts_defaults [OF b1, of "[''TTS_VOICE'' \<mapsto> ''en-GB_KateV3Voice'']"
      "\<lambda>p. Inr [1, 2]" "\<lambda>s. Inr s" "\<lambda>v. True" "\<lparr>files = {}, events = []\<rparr>"]
    tts_defaults [OF b2, of Map.empty
      "\<lambda>p. Inr [1, 2]" "\<lambda>s. Inr s" "\<lambda>v. True" "\<lparr>files = {}, events = []\<rparr>"]
    b1 b2
  show ?thesis by auto
qed

text \<open>
  Against \<^bold>\<open>C8\<close> as stated: in an environment in which every variable holds
  \<^verbatim>\<open>audio/wav\<close>, a request without \<^verbatim>\<open>format\<close> is sent on with the format
  \<^verbatim>\<open>audio/mp3\<close> and answered with that content type, a value the configuration does not
  hold; and a request with the empty format is answered with the content type
  \<^verbatim>\<open>application/octet-stream\<close>, not with the format it asked for.
\<close>

theorem format_not_from_configuration:
  "map tts_accept (synth_calls (events (snd (tts_handler (\<lambda>k. Some ''audio/wav'')
       (\<lambda>p. Inr []) (\<lambda>s. Inr s) (\<lambda>v. True) (JObj [(''text'', JStr ''hello'')])
       \<lparr>files = {}, events = []\<rparr>)))) = [JStr ''audio/mp3'']
   \<and> headers (fst (tts_handler (\<lambda>k. Some ''audio/wav'')
       (\<lambda>p. Inr []) (\<lambda>s. Inr s) (\<lambda>v. True) (JObj [(''text'', JStr ''hello'')])
       \<lparr>files = {}, events = []\<rparr>)) = [(''Content-Type'', JStr ''audio/mp3'')]
   \<and> JStr ''audio/mp3'' \<notin> JStr ` ran (\<lambda>k::string. Some ''audio/wav'')
   \<and> fst (tts_handler Map.empty (\<lambda>p. Inr []) (\<lambda>s. Inr s) (\<lambda>v. True)
       (JObj [(''text'', JStr ''hello''), (''format'', JStr '''')])
       \<lparr>files = {}, events = []\<rparr>)
     = \<lparr>status = 200, headers = [(''Content-Type'', JStr ''application/octet-stream'')],
        payload = Raw []\<rparr>"
  by (simp add: tts_handler_def tts_try_def handler_defs with_default_def ran_def image_def
      res_send_def or_else_def env_get_def)









end
